theory Spec2Isabelle
  imports Complex_Main "HOL-Library.Word" "HOL-Library.Sublist"
begin

section \<open>Derived-metric calculator (SurfBeam2.cpp, lines 95--247)\<close>

text \<open>
  The C++ type \<open>double\<close> is idealised as \<^typ>\<open>real\<close>: the arithmetic below is exact,
  there is no rounding, no overflow to infinity and no NaN. \<open>pow(10.0, y)\<close> is
  \<open>10 powr y\<close>.
\<close>

definition convertDbmToWatts :: "real \<Rightarrow> real" where
  "convertDbmToWatts aDbm = 10 powr (0.1 * (aDbm - 30.0))"

definition getCableAttenuationPercent :: "real \<Rightarrow> real" where
  "getCableAttenuationPercent aCableAttenuationDb =
     (let percent = 0 in
      if aCableAttenuationDb \<ge> 0.0 then aCableAttenuationDb * 6.66666 else percent)"

definition getRxPwrPercent :: "real \<Rightarrow> real" where
  "getRxPwrPercent aRxPwrDbm =
     (let percent = 0 in
      if aRxPwrDbm \<ge> - 72.586 then 119.42208 + aRxPwrDbm * 1.64524 else percent)"

definition getRxSnrPercent :: "real \<Rightarrow> real" where
  "getRxSnrPercent aRxSnrDb =
     (let percent = 0 in
      if aRxSnrDb \<ge> - 3.0 then 10.71429 + aRxSnrDb * 3.57143 else percent)"

definition getTxIfPwrPercent :: "real \<Rightarrow> real" where
  "getTxIfPwrPercent aTxIfPwrDbm =
     (let percent = 0 in
      if aTxIfPwrDbm \<ge> - 35.5 then 137.86408 + aTxIfPwrDbm * 3.8835 else percent)"

definition getTxRfPwrPercent :: "real \<Rightarrow> real" where
  "getTxRfPwrPercent aTxRfPwrDbm =
     (let percent = 0 in
      if aTxRfPwrDbm \<ge> 14.5 then - 56.31068 + aTxRfPwrDbm * 3.8835 else percent)"

lemmas percent_defs =
  getCableAttenuationPercent_def getRxPwrPercent_def getRxSnrPercent_def
  getTxIfPwrPercent_def getTxRfPwrPercent_def


section \<open>Qt string operations used by the decoder\<close>

text \<open>
  \<open>QString\<close> and \<open>QByteArray\<close> are modelled as \<^typ>\<open>string\<close>, a list of 8-bit
  characters; the conversion \<open>QString::fromStdString(bytes.toStdString())\<close> is the
  identity on such text. The functions of this section belong to the Qt library, not to
  the repository: they are written from their documented behaviour, restricted to ASCII
  where Qt consults Unicode tables (white space, case folding).
\<close>

type_synonym QString = string
type_synonym QStringList = "string list"

definition QChar_isSpace :: "char \<Rightarrow> bool" where
  "QChar_isSpace c = (let n = (of_char c :: nat) in (9 \<le> n \<and> n \<le> 13) \<or> n = 32)"

definition QChar_isDigit :: "char \<Rightarrow> bool" where
  "QChar_isDigit c = (let n = (of_char c :: nat) in 48 \<le> n \<and> n \<le> 57)"

definition QChar_toCaseFolded :: "char \<Rightarrow> char" where
  "QChar_toCaseFolded c =
     (let n = (of_char c :: nat) in if 65 \<le> n \<and> n \<le> 90 then char_of (n + 32) else c)"

text \<open>\<open>QString::remove(QChar)\<close>: every occurrence of the character is removed.\<close>

definition QString_remove :: "char \<Rightarrow> QString \<Rightarrow> QString" where
  "QString_remove ch str = filter (\<lambda>c. c \<noteq> ch) str"

text \<open>
  \<open>QString::split(sep)\<close> with the default \<open>Qt::KeepEmptyParts\<close>: the separator is
  searched from left to right, the search resuming behind each occurrence; the text
  behind the last occurrence is the last part, also when it is empty. The second
  argument of \<open>split_from\<close> is the part collected so far.
\<close>

function split_from :: "QString \<Rightarrow> QString \<Rightarrow> QString \<Rightarrow> QStringList" where
  "split_from sep part [] = [part]"
| "split_from sep part (c # cs) =
     (if sep \<noteq> [] \<and> prefix sep (c # cs)
      then part # split_from sep [] (drop (length sep) (c # cs))
      else split_from sep (part @ [c]) cs)"
  by pat_completeness auto
termination
  by (relation "measure (\<lambda>(sep, part, rest). length rest)") (auto simp: neq_Nil_conv)

definition QString_split :: "QString \<Rightarrow> QString \<Rightarrow> QStringList" where
  "QString_split sep str = split_from sep [] str"

text \<open>
  \<open>QString::contains(str, Qt::CaseInsensitive)\<close>: some position of the text starts an
  occurrence of \<open>str\<close>, both compared after case folding.
\<close>

fun occurs_in :: "QString \<Rightarrow> QString \<Rightarrow> bool" where
  "occurs_in str [] = (str = [])"
| "occurs_in str (c # cs) = (prefix str (c # cs) \<or> occurs_in str cs)"

definition QString_contains_ci :: "QString \<Rightarrow> QString \<Rightarrow> bool" where
  "QString_contains_ci text str =
     occurs_in (map QChar_toCaseFolded str) (map QChar_toCaseFolded text)"

text \<open>
  The conversions to unsigned integers (\<open>toULongLong\<close>, \<open>toULong\<close>, \<open>toUShort\<close>, base
  10, no \<open>ok\<close> pointer): white space around the number is ignored, one \<open>+\<close> may precede
  the digits, and the result is 0 when the text is not of this form or the number does
  not fit the result type. \<open>parseUnsigned\<close> is \<open>None\<close> exactly when the text is not a
  number.
\<close>

fun parse_digits :: "nat \<Rightarrow> QString \<Rightarrow> nat option" where
  "parse_digits acc [] = Some acc"
| "parse_digits acc (c # cs) =
     (if QChar_isDigit c then parse_digits (10 * acc + (of_char c - 48)) cs else None)"

definition QString_trimmed :: "QString \<Rightarrow> QString" where
  "QString_trimmed str = rev (dropWhile QChar_isSpace (rev (dropWhile QChar_isSpace str)))"

definition parseUnsigned :: "QString \<Rightarrow> nat option" where
  "parseUnsigned str =
     (let t = QString_trimmed str;
          d = (case t of [] \<Rightarrow> [] | c # r \<Rightarrow> if c = CHR ''+'' then r else t)
      in if d = [] then None else parse_digits 0 d)"

definition toIntegral_unsigned :: "nat \<Rightarrow> QString \<Rightarrow> nat" where
  "toIntegral_unsigned bits str =
     (case parseUnsigned str of
        None \<Rightarrow> 0
      | Some v \<Rightarrow> if v < 2 ^ bits then v else 0)"

definition QString_toULongLong :: "QString \<Rightarrow> 64 word" where
  "QString_toULongLong str = of_nat (toIntegral_unsigned 64 str)"

definition QString_toUShort :: "QString \<Rightarrow> 16 word" where
  "QString_toUShort str = of_nat (toIntegral_unsigned 16 str)"

text \<open>
  \<open>unsigned long\<close> is taken to be 64 bits wide (LP64); where it is 32 bits wide,
  numbers from \<open>2 ^ 32\<close> on convert to 0.
\<close>

definition QString_toULong :: "QString \<Rightarrow> 64 word" where
  "QString_toULong str = of_nat (toIntegral_unsigned 64 str)"


section \<open>Status model (SurfBeam2.h)\<close>

definition FIELD_COUNT_MODEM :: "8 word" where "FIELD_COUNT_MODEM = 81"
definition FIELD_COUNT_TRIA :: "8 word" where "FIELD_COUNT_TRIA = 84"
definition FIELD_DELIMITER :: QString where "FIELD_DELIMITER = ''##''"

datatype SatelliteStatusBeamColor =
    SATELLITE_STATUS_BEAM_COLOR_UNKNOWN
  | SATELLITE_STATUS_BEAM_COLOR_BLUE
  | SATELLITE_STATUS_BEAM_COLOR_ORANGE
  | SATELLITE_STATUS_BEAM_COLOR_PURPLE
  | SATELLITE_STATUS_BEAM_COLOR_GREEN
  | SATELLITE_STATUS_BEAM_COLOR_COUNT

datatype ModemState =
    MODEM_STATE_UNKNOWN
  | MODEM_STATE_SCANNING
  | MODEM_STATE_RANGING
  | MODEM_STATE_NETWORK_ENTRY
  | MODEM_STATE_DHCP
  | MODEM_STATE_ONLINE
  | MODEM_STATE_COUNT

definition MODEM_INDEX_IP_ADDRESS :: nat where "MODEM_INDEX_IP_ADDRESS = 0"
definition MODEM_INDEX_MAC_ADDRESS :: nat where "MODEM_INDEX_MAC_ADDRESS = 1"
definition MODEM_INDEX_SW_VERSION :: nat where "MODEM_INDEX_SW_VERSION = 2"
definition MODEM_INDEX_HW_VERSION :: nat where "MODEM_INDEX_HW_VERSION = 3"
definition MODEM_INDEX_STATUS :: nat where "MODEM_INDEX_STATUS = 4"
definition MODEM_INDEX_RX_PACKETS :: nat where "MODEM_INDEX_RX_PACKETS = 5"
definition MODEM_INDEX_RX_BYTES :: nat where "MODEM_INDEX_RX_BYTES = 6"
definition MODEM_INDEX_TX_PACKETS :: nat where "MODEM_INDEX_TX_PACKETS = 7"
definition MODEM_INDEX_TX_BYTES :: nat where "MODEM_INDEX_TX_BYTES = 8"
definition MODEM_INDEX_ONLINE_TIME :: nat where "MODEM_INDEX_ONLINE_TIME = 9"
definition MODEM_INDEX_LOSS_OF_SYNC_COUNT :: nat where "MODEM_INDEX_LOSS_OF_SYNC_COUNT = 10"
definition MODEM_INDEX_RX_SNR_DB :: nat where "MODEM_INDEX_RX_SNR_DB = 11"
definition MODEM_INDEX_RX_SNR_PERCENT :: nat where "MODEM_INDEX_RX_SNR_PERCENT = 12"
definition MODEM_INDEX_SERIAL_NR :: nat where "MODEM_INDEX_SERIAL_NR = 13"
definition MODEM_INDEX_RX_PWR_DBM :: nat where "MODEM_INDEX_RX_PWR_DBM = 14"
definition MODEM_INDEX_RX_PWR_PERCENT :: nat where "MODEM_INDEX_RX_PWR_PERCENT = 15"
definition MODEM_INDEX_CABLE_RESISTANCE_OHM :: nat where "MODEM_INDEX_CABLE_RESISTANCE_OHM = 16"
definition MODEM_INDEX_CABLE_RESISTANCE_PERCENT :: nat where
  "MODEM_INDEX_CABLE_RESISTANCE_PERCENT = 17"
definition MODEM_INDEX_ODU_TELEMETRY_STATUS :: nat where "MODEM_INDEX_ODU_TELEMETRY_STATUS = 18"
definition MODEM_INDEX_CABLE_ATTEN_DB :: nat where "MODEM_INDEX_CABLE_ATTEN_DB = 19"
definition MODEM_INDEX_CABLE_ATTEN_PERCENT :: nat where "MODEM_INDEX_CABLE_ATTEN_PERCENT = 20"
definition MODEM_INDEX_IFL_TYPE :: nat where "MODEM_INDEX_IFL_TYPE = 21"
definition MODEM_INDEX_PART_NR :: nat where "MODEM_INDEX_PART_NR = 22"
definition MODEM_INDEX_MODEM_STATUS :: nat where "MODEM_INDEX_MODEM_STATUS = 23"
definition MODEM_INDEX_SATELLITE_STATUS :: nat where "MODEM_INDEX_SATELLITE_STATUS = 24"
definition MODEM_INDEX_CLIENT_SIDE_PROXY_STATUS :: nat where
  "MODEM_INDEX_CLIENT_SIDE_PROXY_STATUS = 26"
definition MODEM_INDEX_CLIENT_SIDE_PROXY_HEALTH :: nat where
  "MODEM_INDEX_CLIENT_SIDE_PROXY_HEALTH = 27"
definition MODEM_INDEX_LAST_PAGE_LOAD_DURATION :: nat where
  "MODEM_INDEX_LAST_PAGE_LOAD_DURATION = 30"
definition MODEM_INDEX_UPLINK_SYMBOL_RATE :: nat where "MODEM_INDEX_UPLINK_SYMBOL_RATE = 32"
definition MODEM_INDEX_BDT_VERSION :: nat where "MODEM_INDEX_BDT_VERSION = 40"
definition MODEM_INDEX_VENDOR :: nat where "MODEM_INDEX_VENDOR = 46"
definition MODEM_INDEX_DOWNLINK_SYMBOL_RATE :: nat where "MODEM_INDEX_DOWNLINK_SYMBOL_RATE = 50"
definition MODEM_INDEX_DOWNLINK_MODULATION :: nat where "MODEM_INDEX_DOWNLINK_MODULATION = 51"

lemmas ModemIndexes =
  MODEM_INDEX_IP_ADDRESS_def MODEM_INDEX_MAC_ADDRESS_def MODEM_INDEX_SW_VERSION_def
  MODEM_INDEX_HW_VERSION_def MODEM_INDEX_STATUS_def MODEM_INDEX_RX_PACKETS_def
  MODEM_INDEX_RX_BYTES_def MODEM_INDEX_TX_PACKETS_def MODEM_INDEX_TX_BYTES_def
  MODEM_INDEX_ONLINE_TIME_def MODEM_INDEX_LOSS_OF_SYNC_COUNT_def MODEM_INDEX_RX_SNR_DB_def
  MODEM_INDEX_RX_SNR_PERCENT_def MODEM_INDEX_SERIAL_NR_def MODEM_INDEX_RX_PWR_DBM_def
  MODEM_INDEX_RX_PWR_PERCENT_def MODEM_INDEX_CABLE_RESISTANCE_OHM_def
  MODEM_INDEX_CABLE_RESISTANCE_PERCENT_def MODEM_INDEX_ODU_TELEMETRY_STATUS_def
  MODEM_INDEX_CABLE_ATTEN_DB_def MODEM_INDEX_CABLE_ATTEN_PERCENT_def MODEM_INDEX_IFL_TYPE_def
  MODEM_INDEX_PART_NR_def MODEM_INDEX_MODEM_STATUS_def MODEM_INDEX_SATELLITE_STATUS_def
  MODEM_INDEX_CLIENT_SIDE_PROXY_STATUS_def MODEM_INDEX_CLIENT_SIDE_PROXY_HEALTH_def
  MODEM_INDEX_LAST_PAGE_LOAD_DURATION_def MODEM_INDEX_UPLINK_SYMBOL_RATE_def
  MODEM_INDEX_BDT_VERSION_def MODEM_INDEX_VENDOR_def MODEM_INDEX_DOWNLINK_SYMBOL_RATE_def
  MODEM_INDEX_DOWNLINK_MODULATION_def

text \<open>
  The type parameter \<open>'d\<close> stands for \<open>double\<close> in the two records: the decoder only
  stores what \<open>QString::toDouble\<close> returns, so that conversion is a parameter of the
  decoder and its result type is left open.
\<close>

record 'd ModemInfo =
  IpAddress :: QString
  MacAddress :: QString
  SwVersion :: QString
  HwVersion :: QString
  ModemStatusLabel :: QString
  TxPackets :: "64 word"
  TxBytes :: "64 word"
  RxPackets :: "64 word"
  RxBytes :: "64 word"
  OnlineTime :: QString
  LossOfSyncCount :: "32 word"
  RxSnrDb :: 'd
  RxSnrPercent :: "8 word"
  SerialNumber :: QString
  RxPwrDbm :: 'd
  RxPwrPercent :: "8 word"
  CableResistanceOhm :: 'd
  CableResistancePercent :: "8 word"
  OutdoorUnitTelemetryStatus :: QString
  CableAttenuationDb :: 'd
  CableAttenuationPercent :: "8 word"
  InterFacilityLinkType :: QString
  PartNr :: QString
  ModemStatus :: ModemState
  SatStatusBeamColor :: SatelliteStatusBeamColor
  ClientSideProxyStatus :: QString
  ClientSideProxyHealth :: QString
  LastPageLoadDuration :: QString
  UplinkSymbolRate :: "32 word"
  BeamDataTableVersion :: QString
  Vendor :: QString
  DownlinkSymbolRate :: "32 word"
  DownlinkModulation :: QString

definition TRIA_INDEX_PWR_MODE :: nat where "TRIA_INDEX_PWR_MODE = 4"
definition TRIA_INDEX_POLARIZATION_TYPE :: nat where "TRIA_INDEX_POLARIZATION_TYPE = 5"
definition TRIA_INDEX_TX_IF_PWR_DBM :: nat where "TRIA_INDEX_TX_IF_PWR_DBM = 7"
definition TRIA_INDEX_IFL_TYPE :: nat where "TRIA_INDEX_IFL_TYPE = 9"
definition TRIA_INDEX_TEMPERATURE_C :: nat where "TRIA_INDEX_TEMPERATURE_C = 10"
definition TRIA_INDEX_SERIAL_NR :: nat where "TRIA_INDEX_SERIAL_NR = 16"
definition TRIA_INDEX_TX_RF_PWR_DBM :: nat where "TRIA_INDEX_TX_RF_PWR_DBM = 17"
definition TRIA_INDEX_FW_VERSION :: nat where "TRIA_INDEX_FW_VERSION = 24"
definition TRIA_INDEX_TX_IF_PWR_PERCENT :: nat where "TRIA_INDEX_TX_IF_PWR_PERCENT = 25"
definition TRIA_INDEX_TX_RF_PWR_PERCENT :: nat where "TRIA_INDEX_TX_RF_PWR_PERCENT = 26"
definition TRIA_INDEX_SATELLITE_STATUS :: nat where "TRIA_INDEX_SATELLITE_STATUS = 29"
definition TRIA_INDEX_VENDOR :: nat where "TRIA_INDEX_VENDOR = 81"

lemmas TriaIndexes =
  TRIA_INDEX_PWR_MODE_def TRIA_INDEX_POLARIZATION_TYPE_def TRIA_INDEX_TX_IF_PWR_DBM_def
  TRIA_INDEX_IFL_TYPE_def TRIA_INDEX_TEMPERATURE_C_def TRIA_INDEX_SERIAL_NR_def
  TRIA_INDEX_TX_RF_PWR_DBM_def TRIA_INDEX_FW_VERSION_def TRIA_INDEX_TX_IF_PWR_PERCENT_def
  TRIA_INDEX_TX_RF_PWR_PERCENT_def TRIA_INDEX_SATELLITE_STATUS_def TRIA_INDEX_VENDOR_def

text \<open>
  The fields of \<open>TriaInfo\<close> whose names \<open>ModemInfo\<close> has too carry the suffix
  \<open>_Tria\<close>.
\<close>

record 'd TriaInfo =
  PwrMode :: QString
  PolarizationType :: QString
  TxIfPwrDbm :: 'd
  InterFacilityLinkType_Tria :: QString
  TemperatureCelsius :: 'd
  SerialNumber_Tria :: QString
  TxRfPwrDbm :: 'd
  FwVersion :: QString
  TxIfPwrPercent :: "8 word"
  TxRfPwrPercent :: "8 word"
  SatStatusBeamColor_Tria :: SatelliteStatusBeamColor
  Vendor_Tria :: QString

text \<open>
  A \<open>QNetworkReply\<close> as the slots see it: the request it answers, the bytes that have
  arrived and were not read yet, and whether the object was deleted. \<open>received\<close> is a
  history of every byte that arrived; no slot reads it.
\<close>

datatype Pipeline = Modem | Tria

record QNetworkReply =
  request :: Pipeline
  received :: string
  unread :: string
  deleted :: bool

text \<open>
  The member variables of class \<open>SurfBeam2\<close>, without the widgets of \<open>mMainUi\<close>. The
  network access manager \<open>mQnam\<close> is the list of the replies it has created; a pointer
  to a reply is its position in that list.
\<close>

record 'd SurfBeam2 =
  mModemRawStringsList :: QStringList
  mTriaRawStringsList :: QStringList
  mModemInfo :: "'d ModemInfo"
  mTriaInfo :: "'d TriaInfo"
  mQnam :: "QNetworkReply list"
  mReplyModem :: nat
  mReplyTria :: nat
  mByteArrayModem :: string
  mByteArrayTria :: string



section \<open>Field decoder (SurfBeam2.cpp, lines 599--919)\<close>

text \<open>
  One pass of the \<open>switch\<close> in \<open>updateModemInfo\<close>, for the loop index \<open>i\<close>. The
  cases stand in the order of the source; an assignment to a narrower unsigned field
  keeps the low bits (\<open>ucast\<close>).
\<close>

definition updateModemInfo_case ::
  "(QString \<Rightarrow> 'd) \<Rightarrow> nat \<Rightarrow> 'd SurfBeam2 \<Rightarrow> 'd SurfBeam2" where
  "updateModemInfo_case toDouble i s =
     (if i = MODEM_INDEX_IP_ADDRESS
      then s\<lparr>mModemInfo := (mModemInfo s)\<lparr>IpAddress :=
          mModemRawStringsList s ! i\<rparr>\<rparr>
      else if i = MODEM_INDEX_MAC_ADDRESS
      then s\<lparr>mModemInfo := (mModemInfo s)\<lparr>MacAddress :=
          mModemRawStringsList s ! i\<rparr>\<rparr>
      else if i = MODEM_INDEX_SW_VERSION
      then s\<lparr>mModemInfo := (mModemInfo s)\<lparr>SwVersion :=
          mModemRawStringsList s ! i\<rparr>\<rparr>
      else if i = MODEM_INDEX_HW_VERSION
      then s\<lparr>mModemInfo := (mModemInfo s)\<lparr>HwVersion :=
          mModemRawStringsList s ! i\<rparr>\<rparr>
      else if i = MODEM_INDEX_STATUS
      then s\<lparr>mModemInfo := (mModemInfo s)\<lparr>ModemStatusLabel :=
          mModemRawStringsList s ! i\<rparr>\<rparr>
      else if i = MODEM_INDEX_TX_PACKETS
      then (let rawString = QString_remove CHR '','' (mModemRawStringsList s ! i)
           in s\<lparr>mModemInfo := (mModemInfo s)\<lparr>TxPackets :=
               QString_toULongLong rawString\<rparr>\<rparr>)
      else if i = MODEM_INDEX_TX_BYTES
      then (let rawString = QString_remove CHR '','' (mModemRawStringsList s ! i)
           in s\<lparr>mModemInfo := (mModemInfo s)\<lparr>TxBytes :=
               QString_toULongLong rawString\<rparr>\<rparr>)
      else if i = MODEM_INDEX_RX_PACKETS
      then (let rawString = QString_remove CHR '','' (mModemRawStringsList s ! i)
           in s\<lparr>mModemInfo := (mModemInfo s)\<lparr>RxPackets :=
               QString_toULongLong rawString\<rparr>\<rparr>)
      else if i = MODEM_INDEX_RX_BYTES
      then (let rawString = QString_remove CHR '','' (mModemRawStringsList s ! i)
           in s\<lparr>mModemInfo := (mModemInfo s)\<lparr>RxBytes :=
               QString_toULongLong rawString\<rparr>\<rparr>)
      else if i = MODEM_INDEX_ONLINE_TIME
      then s\<lparr>mModemInfo := (mModemInfo s)\<lparr>OnlineTime :=
          mModemRawStringsList s ! i\<rparr>\<rparr>
      else if i = MODEM_INDEX_LOSS_OF_SYNC_COUNT
      then s\<lparr>mModemInfo := (mModemInfo s)\<lparr>LossOfSyncCount :=
          ucast (QString_toULongLong (mModemRawStringsList s ! i))\<rparr>\<rparr>
      else if i = MODEM_INDEX_RX_SNR_DB
      then s\<lparr>mModemInfo := (mModemInfo s)\<lparr>RxSnrDb :=
          toDouble (mModemRawStringsList s ! i)\<rparr>\<rparr>
      else if i = MODEM_INDEX_RX_SNR_PERCENT
      then (let rawString = QString_remove CHR ''%'' (mModemRawStringsList s ! i)
           in s\<lparr>mModemInfo := (mModemInfo s)\<lparr>RxSnrPercent :=
               ucast (QString_toUShort rawString)\<rparr>\<rparr>)
      else if i = MODEM_INDEX_SERIAL_NR
      then s\<lparr>mModemInfo := (mModemInfo s)\<lparr>SerialNumber :=
          mModemRawStringsList s ! i\<rparr>\<rparr>
      else if i = MODEM_INDEX_RX_PWR_DBM
      then s\<lparr>mModemInfo := (mModemInfo s)\<lparr>RxPwrDbm :=
          toDouble (mModemRawStringsList s ! i)\<rparr>\<rparr>
      else if i = MODEM_INDEX_RX_PWR_PERCENT
      then (let rawString = QString_remove CHR ''%'' (mModemRawStringsList s ! i)
           in s\<lparr>mModemInfo := (mModemInfo s)\<lparr>RxPwrPercent :=
               ucast (QString_toUShort rawString)\<rparr>\<rparr>)
      else if i = MODEM_INDEX_CABLE_RESISTANCE_OHM
      then s\<lparr>mModemInfo := (mModemInfo s)\<lparr>CableResistanceOhm :=
          toDouble (mModemRawStringsList s ! i)\<rparr>\<rparr>
      else if i = MODEM_INDEX_CABLE_RESISTANCE_PERCENT
      then (let rawString = QString_remove CHR ''%'' (mModemRawStringsList s ! i)
           in s\<lparr>mModemInfo := (mModemInfo s)\<lparr>CableResistancePercent :=
               ucast (QString_toUShort rawString)\<rparr>\<rparr>)
      else if i = MODEM_INDEX_ODU_TELEMETRY_STATUS
      then s\<lparr>mModemInfo := (mModemInfo s)\<lparr>OutdoorUnitTelemetryStatus :=
          mModemRawStringsList s ! i\<rparr>\<rparr>
      else if i = MODEM_INDEX_CABLE_ATTEN_DB
      then s\<lparr>mModemInfo := (mModemInfo s)\<lparr>CableAttenuationDb :=
          toDouble (mModemRawStringsList s ! i)\<rparr>\<rparr>
      else if i = MODEM_INDEX_CABLE_ATTEN_PERCENT
      then (let rawString = QString_remove CHR ''%'' (mModemRawStringsList s ! i)
           in s\<lparr>mModemInfo := (mModemInfo s)\<lparr>CableAttenuationPercent :=
               ucast (QString_toUShort rawString)\<rparr>\<rparr>)
      else if i = MODEM_INDEX_IFL_TYPE
      then s\<lparr>mModemInfo := (mModemInfo s)\<lparr>InterFacilityLinkType :=
          mModemRawStringsList s ! i\<rparr>\<rparr>
      else if i = MODEM_INDEX_PART_NR
      then s\<lparr>mModemInfo := (mModemInfo s)\<lparr>PartNr :=
          mModemRawStringsList s ! i\<rparr>\<rparr>
      else if i = MODEM_INDEX_MODEM_STATUS
      then (let stateString = mModemRawStringsList s ! i in
           if QString_contains_ci stateString ''scanning''
           then s\<lparr>mModemInfo := (mModemInfo s)\<lparr>ModemStatus :=
               MODEM_STATE_SCANNING\<rparr>\<rparr>
           else if QString_contains_ci stateString ''ranging''
           then s\<lparr>mModemInfo := (mModemInfo s)\<lparr>ModemStatus :=
               MODEM_STATE_RANGING\<rparr>\<rparr>
           else if QString_contains_ci stateString ''network''
           then s\<lparr>mModemInfo := (mModemInfo s)\<lparr>ModemStatus :=
               MODEM_STATE_NETWORK_ENTRY\<rparr>\<rparr>
           else if QString_contains_ci stateString ''dhcp''
           then s\<lparr>mModemInfo := (mModemInfo s)\<lparr>ModemStatus :=
               MODEM_STATE_DHCP\<rparr>\<rparr>
           else if QString_contains_ci stateString ''online''
           then s\<lparr>mModemInfo := (mModemInfo s)\<lparr>ModemStatus :=
               MODEM_STATE_ONLINE\<rparr>\<rparr>
           else s\<lparr>mModemInfo := (mModemInfo s)\<lparr>ModemStatus :=
               MODEM_STATE_UNKNOWN\<rparr>\<rparr>)
      else if i = MODEM_INDEX_SATELLITE_STATUS
      then (let beamColorString = mModemRawStringsList s ! i in
           if QString_contains_ci beamColorString ''blue''
           then s\<lparr>mModemInfo := (mModemInfo s)\<lparr>SatStatusBeamColor :=
               SATELLITE_STATUS_BEAM_COLOR_BLUE\<rparr>\<rparr>
           else if QString_contains_ci beamColorString ''orange''
           then s\<lparr>mModemInfo := (mModemInfo s)\<lparr>SatStatusBeamColor :=
               SATELLITE_STATUS_BEAM_COLOR_ORANGE\<rparr>\<rparr>
           else if QString_contains_ci beamColorString ''purple''
           then s\<lparr>mModemInfo := (mModemInfo s)\<lparr>SatStatusBeamColor :=
               SATELLITE_STATUS_BEAM_COLOR_PURPLE\<rparr>\<rparr>
           else if QString_contains_ci beamColorString ''green''
           then s\<lparr>mModemInfo := (mModemInfo s)\<lparr>SatStatusBeamColor :=
               SATELLITE_STATUS_BEAM_COLOR_GREEN\<rparr>\<rparr>
           else s\<lparr>mModemInfo := (mModemInfo s)\<lparr>SatStatusBeamColor :=
               SATELLITE_STATUS_BEAM_COLOR_UNKNOWN\<rparr>\<rparr>)
      else if i = MODEM_INDEX_CLIENT_SIDE_PROXY_STATUS
      then s\<lparr>mModemInfo := (mModemInfo s)\<lparr>ClientSideProxyStatus :=
          mModemRawStringsList s ! i\<rparr>\<rparr>
      else if i = MODEM_INDEX_CLIENT_SIDE_PROXY_HEALTH
      then s\<lparr>mModemInfo := (mModemInfo s)\<lparr>ClientSideProxyHealth :=
          mModemRawStringsList s ! i\<rparr>\<rparr>
      else if i = MODEM_INDEX_LAST_PAGE_LOAD_DURATION
      then s\<lparr>mModemInfo := (mModemInfo s)\<lparr>LastPageLoadDuration :=
          mModemRawStringsList s ! i\<rparr>\<rparr>
      else if i = MODEM_INDEX_UPLINK_SYMBOL_RATE
      then s\<lparr>mModemInfo := (mModemInfo s)\<lparr>UplinkSymbolRate :=
          ucast (QString_toULong (mModemRawStringsList s ! i))\<rparr>\<rparr>
      else if i = MODEM_INDEX_BDT_VERSION
      then s\<lparr>mModemInfo := (mModemInfo s)\<lparr>BeamDataTableVersion :=
          mModemRawStringsList s ! i\<rparr>\<rparr>
      else if i = MODEM_INDEX_VENDOR
      then s\<lparr>mModemInfo := (mModemInfo s)\<lparr>Vendor :=
          mModemRawStringsList s ! i\<rparr>\<rparr>
      else if i = MODEM_INDEX_DOWNLINK_SYMBOL_RATE
      then s\<lparr>mModemInfo := (mModemInfo s)\<lparr>DownlinkSymbolRate :=
          ucast (QString_toULong (mModemRawStringsList s ! i))\<rparr>\<rparr>
      else if i = MODEM_INDEX_DOWNLINK_MODULATION
      then s\<lparr>mModemInfo := (mModemInfo s)\<lparr>DownlinkModulation :=
          mModemRawStringsList s ! i\<rparr>\<rparr>
      else s)"

lemma updateModemInfo_case_list [simp]:
  "mModemRawStringsList (updateModemInfo_case toDouble i s) = mModemRawStringsList s"
  unfolding updateModemInfo_case_def Let_def
  by (simp split del: if_split add: if_distrib [of mModemRawStringsList] cong: if_cong)

function updateModemInfo_loop ::
  "(QString \<Rightarrow> 'd) \<Rightarrow> nat \<Rightarrow> 'd SurfBeam2 \<Rightarrow> 'd SurfBeam2" where
  "updateModemInfo_loop toDouble i s =
     (if i < length (mModemRawStringsList s)
      then updateModemInfo_loop toDouble (Suc i) (updateModemInfo_case toDouble i s)
      else s)"
  by pat_completeness auto
termination
  by (relation "measure (\<lambda>(toDouble, i, s). length (mModemRawStringsList s) - i)") auto

definition updateModemInfo :: "(QString \<Rightarrow> 'd) \<Rightarrow> 'd SurfBeam2 \<Rightarrow> 'd SurfBeam2" where
  "updateModemInfo toDouble s = updateModemInfo_loop toDouble 0 s"

definition updateTriaInfo_case ::
  "(QString \<Rightarrow> 'd) \<Rightarrow> nat \<Rightarrow> 'd SurfBeam2 \<Rightarrow> 'd SurfBeam2" where
  "updateTriaInfo_case toDouble i s =
     (if i = TRIA_INDEX_PWR_MODE
      then s\<lparr>mTriaInfo := (mTriaInfo s)\<lparr>PwrMode :=
          mTriaRawStringsList s ! i\<rparr>\<rparr>
      else if i = TRIA_INDEX_POLARIZATION_TYPE
      then s\<lparr>mTriaInfo := (mTriaInfo s)\<lparr>PolarizationType :=
          mTriaRawStringsList s ! i\<rparr>\<rparr>
      else if i = TRIA_INDEX_TX_IF_PWR_DBM
      then s\<lparr>mTriaInfo := (mTriaInfo s)\<lparr>TxIfPwrDbm :=
          toDouble (mTriaRawStringsList s ! i)\<rparr>\<rparr>
      else if i = TRIA_INDEX_IFL_TYPE
      then s\<lparr>mTriaInfo := (mTriaInfo s)\<lparr>InterFacilityLinkType_Tria :=
          mTriaRawStringsList s ! i\<rparr>\<rparr>
      else if i = TRIA_INDEX_TEMPERATURE_C
      then s\<lparr>mTriaInfo := (mTriaInfo s)\<lparr>TemperatureCelsius :=
          toDouble (mTriaRawStringsList s ! i)\<rparr>\<rparr>
      else if i = TRIA_INDEX_SERIAL_NR
      then s\<lparr>mTriaInfo := (mTriaInfo s)\<lparr>SerialNumber_Tria :=
          mTriaRawStringsList s ! i\<rparr>\<rparr>
      else if i = TRIA_INDEX_TX_RF_PWR_DBM
      then s\<lparr>mTriaInfo := (mTriaInfo s)\<lparr>TxRfPwrDbm :=
          toDouble (mTriaRawStringsList s ! i)\<rparr>\<rparr>
      else if i = TRIA_INDEX_FW_VERSION
      then s\<lparr>mTriaInfo := (mTriaInfo s)\<lparr>FwVersion :=
          mTriaRawStringsList s ! i\<rparr>\<rparr>
      else if i = TRIA_INDEX_TX_IF_PWR_PERCENT
      then (let rawString = QString_remove CHR ''%'' (mTriaRawStringsList s ! i)
           in s\<lparr>mTriaInfo := (mTriaInfo s)\<lparr>TxIfPwrPercent :=
               ucast (QString_toUShort rawString)\<rparr>\<rparr>)
      else if i = TRIA_INDEX_TX_RF_PWR_PERCENT
      then (let rawString = QString_remove CHR ''%'' (mTriaRawStringsList s ! i)
           in s\<lparr>mTriaInfo := (mTriaInfo s)\<lparr>TxRfPwrPercent :=
               ucast (QString_toUShort rawString)\<rparr>\<rparr>)
      else if i = TRIA_INDEX_SATELLITE_STATUS
      then (let beamColorString = mTriaRawStringsList s ! i in
           if QString_contains_ci beamColorString ''blue''
           then s\<lparr>mTriaInfo := (mTriaInfo s)\<lparr>SatStatusBeamColor_Tria :=
               SATELLITE_STATUS_BEAM_COLOR_BLUE\<rparr>\<rparr>
           else if QString_contains_ci beamColorString ''orange''
           then s\<lparr>mTriaInfo := (mTriaInfo s)\<lparr>SatStatusBeamColor_Tria :=
               SATELLITE_STATUS_BEAM_COLOR_ORANGE\<rparr>\<rparr>
           else if QString_contains_ci beamColorString ''purple''
           then s\<lparr>mTriaInfo := (mTriaInfo s)\<lparr>SatStatusBeamColor_Tria :=
               SATELLITE_STATUS_BEAM_COLOR_PURPLE\<rparr>\<rparr>
           else if QString_contains_ci beamColorString ''green''
           then s\<lparr>mTriaInfo := (mTriaInfo s)\<lparr>SatStatusBeamColor_Tria :=
               SATELLITE_STATUS_BEAM_COLOR_GREEN\<rparr>\<rparr>
           else s\<lparr>mTriaInfo := (mTriaInfo s)\<lparr>SatStatusBeamColor_Tria :=
               SATELLITE_STATUS_BEAM_COLOR_UNKNOWN\<rparr>\<rparr>)
      else if i = TRIA_INDEX_VENDOR
      then s\<lparr>mTriaInfo := (mTriaInfo s)\<lparr>Vendor_Tria :=
          mTriaRawStringsList s ! i\<rparr>\<rparr>
      else s)"

lemma updateTriaInfo_case_list [simp]:
  "mTriaRawStringsList (updateTriaInfo_case toDouble i s) = mTriaRawStringsList s"
  unfolding updateTriaInfo_case_def Let_def
  by (simp split del: if_split add: if_distrib [of mTriaRawStringsList] cong: if_cong)

function updateTriaInfo_loop ::
  "(QString \<Rightarrow> 'd) \<Rightarrow> nat \<Rightarrow> 'd SurfBeam2 \<Rightarrow> 'd SurfBeam2" where
  "updateTriaInfo_loop toDouble i s =
     (if i < length (mTriaRawStringsList s)
      then updateTriaInfo_loop toDouble (Suc i) (updateTriaInfo_case toDouble i s)
      else s)"
  by pat_completeness auto
termination
  by (relation "measure (\<lambda>(toDouble, i, s). length (mTriaRawStringsList s) - i)") auto

definition updateTriaInfo :: "(QString \<Rightarrow> 'd) \<Rightarrow> 'd SurfBeam2 \<Rightarrow> 'd SurfBeam2" where
  "updateTriaInfo toDouble s = updateTriaInfo_loop toDouble 0 s"


section \<open>Poll driver (SurfBeam2.cpp, lines 254--333)\<close>

text \<open>
  Reading through a pointer to a reply that was deleted, or before any reply was
  created, is undefined behaviour in C++; the slots then end in the fault
  \<open>UseAfterFree\<close>.
\<close>

datatype fault = UseAfterFree

definition reply_alive :: "'d SurfBeam2 \<Rightarrow> nat \<Rightarrow> bool" where
  "reply_alive s p = (p < length (mQnam s) \<and> \<not> deleted (mQnam s ! p))"

text \<open>\<open>QNetworkAccessManager::get\<close>: a new reply for the request, with nothing received.\<close>

definition QNetworkAccessManager_get :: "Pipeline \<Rightarrow> QNetworkReply list \<Rightarrow> QNetworkReply list" where
  "QNetworkAccessManager_get url replies =
     replies @ [\<lparr>request = url, received = [], unread = [], deleted = False\<rparr>]"

text \<open>\<open>QObject::deleteLater\<close>: the reply is gone once the slot has returned.\<close>

definition deleteLater :: "nat \<Rightarrow> QNetworkReply list \<Rightarrow> QNetworkReply list" where
  "deleteLater p replies = replies[p := (replies ! p)\<lparr>deleted := True\<rparr>]"

text \<open>\<open>QIODevice::readAll\<close> returns the unread bytes and leaves none unread.\<close>

definition readAll :: "nat \<Rightarrow> QNetworkReply list \<Rightarrow> string \<times> QNetworkReply list" where
  "readAll p replies = (unread (replies ! p), replies[p := (replies ! p)\<lparr>unread := []\<rparr>])"

text \<open>
  \<open>httpFinishedModem\<close> and \<open>httpFinishedTria\<close>. \<open>updateContent()\<close> writes widgets of
  \<open>mMainUi\<close> only and leaves every member modelled here as it is.
\<close>

definition httpFinishedModem :: "(QString \<Rightarrow> 'd) \<Rightarrow> 'd SurfBeam2 \<Rightarrow> fault + 'd SurfBeam2" where
  "httpFinishedModem toDouble s =
     (let rawString = mByteArrayModem s;
          s1 = s\<lparr>mModemRawStringsList := QString_split FIELD_DELIMITER rawString\<rparr>;
          s2 = (if unat FIELD_COUNT_MODEM = length (mModemRawStringsList s1)
                then updateModemInfo toDouble s1
                else s1)
      in if reply_alive s2 (mReplyModem s2)
         then Inr (s2\<lparr>mQnam := deleteLater (mReplyModem s2) (mQnam s2)\<rparr>)
         else Inl UseAfterFree)"

definition httpFinishedTria :: "(QString \<Rightarrow> 'd) \<Rightarrow> 'd SurfBeam2 \<Rightarrow> fault + 'd SurfBeam2" where
  "httpFinishedTria toDouble s =
     (let rawString = mByteArrayTria s;
          s1 = s\<lparr>mTriaRawStringsList := QString_split FIELD_DELIMITER rawString\<rparr>;
          s2 = (if unat FIELD_COUNT_TRIA = length (mTriaRawStringsList s1)
                then updateTriaInfo toDouble s1
                else s1)
      in if reply_alive s2 (mReplyTria s2)
         then Inr (s2\<lparr>mQnam := deleteLater (mReplyTria s2) (mQnam s2)\<rparr>)
         else Inl UseAfterFree)"

definition httpReadyReadModem :: "'d SurfBeam2 \<Rightarrow> fault + 'd SurfBeam2" where
  "httpReadyReadModem s =
     (if reply_alive s (mReplyModem s)
      then (let (bytes, replies) = readAll (mReplyModem s) (mQnam s)
            in Inr (s\<lparr>mByteArrayModem := mByteArrayModem s @ bytes, mQnam := replies\<rparr>))
      else Inl UseAfterFree)"

definition httpReadyReadTria :: "'d SurfBeam2 \<Rightarrow> fault + 'd SurfBeam2" where
  "httpReadyReadTria s =
     (if reply_alive s (mReplyTria s)
      then (let (bytes, replies) = readAll (mReplyTria s) (mQnam s)
            in Inr (s\<lparr>mByteArrayTria := mByteArrayTria s @ bytes, mQnam := replies\<rparr>))
      else Inl UseAfterFree)"

text \<open>
  \<open>startCgiRequest\<close>. The two \<open>connect\<close> calls after each \<open>get\<close> bind the signals of
  the new reply to the slots of its pipeline; the field \<open>request\<close> of the reply records
  which.
\<close>

definition startCgiRequest :: "'d SurfBeam2 \<Rightarrow> 'd SurfBeam2" where
  "startCgiRequest s =
     (let s1 = s\<lparr>mByteArrayModem := []\<rparr>;
          s2 = s1\<lparr>mReplyModem := length (mQnam s1),
                  mQnam := QNetworkAccessManager_get Modem (mQnam s1)\<rparr>;
          s3 = s2\<lparr>mByteArrayTria := []\<rparr>;
          s4 = s3\<lparr>mReplyTria := length (mQnam s3),
                  mQnam := QNetworkAccessManager_get Tria (mQnam s3)\<rparr>
      in s4)"

text \<open>
  The constructor leaves the two records as they are allocated (\<open>modem0\<close>, \<open>tria0\<close>)
  and issues the first pair of requests.
\<close>

definition SurfBeam2_constructor :: "'d ModemInfo \<Rightarrow> 'd TriaInfo \<Rightarrow> 'd SurfBeam2" where
  "SurfBeam2_constructor modem0 tria0 =
     startCgiRequest
       \<lparr>mModemRawStringsList = [], mTriaRawStringsList = [],
        mModemInfo = modem0, mTriaInfo = tria0, mQnam = [],
        mReplyModem = 0, mReplyTria = 0, mByteArrayModem = [], mByteArrayTria = []\<rparr>"

text \<open>
  What the event loop dispatches: a tick of the 500 ms timer, bytes arriving for a
  reply (which then emits \<open>readyRead\<close>), and a reply emitting \<open>finished\<close>. Signals reach
  the slots of the reply's pipeline whether or not the reply is the one the member
  pointer tracks, since nothing disconnects a superseded reply; a deleted reply emits
  nothing.
\<close>

datatype event = TimerTimeout | BytesArrive nat string | ReplyFinished nat

definition arrive :: "nat \<Rightarrow> string \<Rightarrow> QNetworkReply list \<Rightarrow> QNetworkReply list" where
  "arrive p bytes replies =
     replies[p := (replies ! p)\<lparr>received := received (replies ! p) @ bytes,
                                unread := unread (replies ! p) @ bytes\<rparr>]"

definition dispatch :: "(QString \<Rightarrow> 'd) \<Rightarrow> event \<Rightarrow> 'd SurfBeam2 \<Rightarrow> fault + 'd SurfBeam2" where
  "dispatch toDouble e s =
     (case e of
        TimerTimeout \<Rightarrow> Inr (startCgiRequest s)
      | BytesArrive p bytes \<Rightarrow>
          if reply_alive s p
          then (let s1 = s\<lparr>mQnam := arrive p bytes (mQnam s)\<rparr>
                in case request (mQnam s ! p) of
                     Modem \<Rightarrow> httpReadyReadModem s1
                   | Tria \<Rightarrow> httpReadyReadTria s1)
          else Inr s
      | ReplyFinished p \<Rightarrow>
          if reply_alive s p
          then (case request (mQnam s ! p) of
                  Modem \<Rightarrow> httpFinishedModem toDouble s
                | Tria \<Rightarrow> httpFinishedTria toDouble s)
          else Inr s)"

fun run :: "(QString \<Rightarrow> 'd) \<Rightarrow> event list \<Rightarrow> 'd SurfBeam2 \<Rightarrow> fault + 'd SurfBeam2" where
  "run toDouble [] s = Inr s"
| "run toDouble (e # es) s =
     (case dispatch toDouble e s of
        Inl f \<Rightarrow> Inl f
      | Inr s' \<Rightarrow> run toDouble es s')"

section \<open>Power as text (SurfBeam2.cpp, lines 109--147)\<close>

text \<open>
  \<open>QString::number(double, format, precision)\<close> for the two formats the program uses,
  on real numbers. Format \<open>'f'\<close> is fixed notation with \<open>precision\<close> digits behind the
  point, rounded to nearest. Format \<open>'g'\<close> keeps at most \<open>precision\<close> significant
  digits and drops trailing zeros; it switches to the exponent form when the decimal
  exponent is below \<open>-4\<close> or not below the precision.
\<close>

fun digits :: "nat \<Rightarrow> string" where
  "digits n =
     (if n < 10 then [char_of (48 + n)] else digits (n div 10) @ [char_of (48 + n mod 10)])"

declare digits.simps [simp del]

definition number_fixed :: "real \<Rightarrow> nat \<Rightarrow> QString" where
  "number_fixed x prec =
     (let n = nat \<lfloor>\<bar>x\<bar> * 10 ^ prec + 1 / 2\<rfloor>;
          whole = digits (n div 10 ^ prec);
          frac = digits (n mod 10 ^ prec)
      in (if x < 0 then ''-'' else []) @ whole @
         (if prec = 0 then [] else ''.'' @ replicate (prec - length frac) CHR ''0'' @ frac))"

definition strip_zeros :: "string \<Rightarrow> string" where
  "strip_zeros str =
     (let r = dropWhile (\<lambda>c. c = CHR ''0'') (rev str)
      in rev (case r of [] \<Rightarrow> [] | c # cs \<Rightarrow> if c = CHR ''.'' then cs else r))"

definition number_general :: "real \<Rightarrow> nat \<Rightarrow> QString" where
  "number_general x prec =
     (if x = 0 then ''0''
      else let p = max prec 1;
               e0 = \<lfloor>log 10 \<bar>x\<bar>\<rfloor>;
               m0 = nat \<lfloor>\<bar>x\<bar> * 10 powr (of_int (int p - 1 - e0)) + 1 / 2\<rfloor>;
               e = (if 10 ^ p \<le> m0 then e0 + 1 else e0);
               m = (if 10 ^ p \<le> m0 then m0 div 10 else m0);
               sign = (if x < 0 then ''-'' else [])
           in if e < - 4 \<or> int p \<le> e
              then (let ds = digits m;
                        ex = digits (nat \<bar>e\<bar>)
                    in sign @ strip_zeros (hd ds # ''.'' @ tl ds) @ ''e'' @
                       (if e < 0 then ''-'' else ''+'') @
                       (if length ex < 2 then ''0'' @ ex else ex))
              else if int p - 1 - e = 0
              then sign @ digits m
              else sign @ strip_zeros (number_fixed \<bar>x\<bar> (nat (int p - 1 - e))))"

definition QString_number :: "real \<Rightarrow> char \<Rightarrow> nat \<Rightarrow> QString" where
  "QString_number x format precision =
     (if format = CHR ''f'' then number_fixed x precision else number_general x precision)"

text \<open>The small Greek mu, as its two bytes in UTF-8.\<close>

definition MU_SMALL :: QString where
  "MU_SMALL = [CHR 0xCE, CHR 0xBC]"

definition convertDbmToQstring :: "real \<Rightarrow> QString" where
  "convertDbmToQstring aDbm =
     (let pwrWatts = convertDbmToWatts aDbm in
      if \<bar>pwrWatts\<bar> \<ge> 1
      then QString_number pwrWatts CHR ''f'' 3 @ '' W''
      else if \<bar>pwrWatts\<bar> \<ge> 1 / 10 ^ 3
      then QString_number (pwrWatts * 10 ^ 3) CHR ''f'' 1 @ '' mW''
      else if \<bar>pwrWatts\<bar> \<ge> 1 / 10 ^ 6
      then QString_number (pwrWatts * 10 ^ 6) CHR ''f'' 1 @ '' '' @ MU_SMALL @ ''W''
      else if \<bar>pwrWatts\<bar> \<ge> 1 / 10 ^ 9
      then QString_number (pwrWatts * 10 ^ 9) CHR ''f'' 1 @ '' nW''
      else if \<bar>pwrWatts\<bar> \<ge> 1 / 10 ^ 12
      then QString_number (pwrWatts * 10 ^ 12) CHR ''f'' 1 @ '' pW''
      else if \<bar>pwrWatts\<bar> \<ge> 1 / 10 ^ 15
      then QString_number (pwrWatts * 10 ^ 15) CHR ''f'' 1 @ '' fW''
      else QString_number pwrWatts CHR ''g'' 3 @ '' W'')"

section \<open>The documented rules, for comparison with the code\<close>

text \<open>
  The power rendering as the documentation words it: the units from the largest to the
  smallest, each with its size in Watts, its number of decimals and its letters; the
  first unit in which the magnitude is at least 1 is used, and a magnitude below one
  femtowatt is written in the general format with three significant digits.
\<close>

definition power_units :: "(real \<times> nat \<times> QString) list" where
  "power_units =
     [(1, 3, '' W''),
      (1 / 10 ^ 3, 1, '' mW''),
      (1 / 10 ^ 6, 1, '' '' @ MU_SMALL @ ''W''),
      (1 / 10 ^ 9, 1, '' nW''),
      (1 / 10 ^ 12, 1, '' pW''),
      (1 / 10 ^ 15, 1, '' fW'')]"

definition documented_power_string :: "real \<Rightarrow> QString" where
  "documented_power_string dBm =
     (let watts = 10 powr (0.1 * (dBm - 30)) in
      case find (\<lambda>(unit, decimals, letters). \<bar>watts\<bar> / unit \<ge> 1) power_units of
        Some (unit, decimals, letters) \<Rightarrow>
          QString_number (watts / unit) CHR ''f'' decimals @ letters
      | None \<Rightarrow> QString_number watts CHR ''g'' 3 @ '' W'')"

text \<open>
  The categorical decode as the documentation words it: an ordered list of keywords
  with their members; the first keyword that occurs in the text, letter case ignored,
  gives the member, and a text with none of them gives the member for the unknown.
\<close>

definition modem_status_keywords :: "(QString \<times> ModemState) list" where
  "modem_status_keywords =
     [(''scanning'', MODEM_STATE_SCANNING),
      (''ranging'', MODEM_STATE_RANGING),
      (''network'', MODEM_STATE_NETWORK_ENTRY),
      (''dhcp'', MODEM_STATE_DHCP),
      (''online'', MODEM_STATE_ONLINE)]"

definition beam_color_keywords :: "(QString \<times> SatelliteStatusBeamColor) list" where
  "beam_color_keywords =
     [(''blue'', SATELLITE_STATUS_BEAM_COLOR_BLUE),
      (''orange'', SATELLITE_STATUS_BEAM_COLOR_ORANGE),
      (''purple'', SATELLITE_STATUS_BEAM_COLOR_PURPLE),
      (''green'', SATELLITE_STATUS_BEAM_COLOR_GREEN)]"

definition first_match :: "(QString \<times> 'a) list \<Rightarrow> 'a \<Rightarrow> QString \<Rightarrow> 'a" where
  "first_match keywords unknown str =
     (case find (\<lambda>(keyword, member). QString_contains_ci str keyword) keywords of
        Some (keyword, member) \<Rightarrow> member
      | None \<Rightarrow> unknown)"

text \<open>The percentage rule as documented: one \<open>%\<close> at the end of the text is dropped.\<close>

definition strip_trailing_percent :: "QString \<Rightarrow> QString" where
  "strip_trailing_percent str =
     (if str \<noteq> [] \<and> last str = CHR ''%'' then butlast str else str)"

section \<open>States for the examples\<close>

text \<open>
  The examples inspect no field that holds a \<open>double\<close>; they run the decoder with a
  conversion into the one-element type.
\<close>

definition no_double :: "QString \<Rightarrow> unit" where
  "no_double str = ()"

definition blank_ModemInfo :: "unit ModemInfo" where
  "blank_ModemInfo =
     \<lparr>IpAddress = [], MacAddress = [], SwVersion = [], HwVersion = [],
      ModemStatusLabel = [], TxPackets = 0, TxBytes = 0, RxPackets = 0, RxBytes = 0,
      OnlineTime = [], LossOfSyncCount = 0, RxSnrDb = (), RxSnrPercent = 0,
      SerialNumber = [], RxPwrDbm = (), RxPwrPercent = 0, CableResistanceOhm = (),
      CableResistancePercent = 0, OutdoorUnitTelemetryStatus = [],
      CableAttenuationDb = (), CableAttenuationPercent = 0, InterFacilityLinkType = [],
      PartNr = [], ModemStatus = MODEM_STATE_UNKNOWN,
      SatStatusBeamColor = SATELLITE_STATUS_BEAM_COLOR_UNKNOWN,
      ClientSideProxyStatus = [], ClientSideProxyHealth = [], LastPageLoadDuration = [],
      UplinkSymbolRate = 0, BeamDataTableVersion = [], Vendor = [],
      DownlinkSymbolRate = 0, DownlinkModulation = []\<rparr>"

definition blank_TriaInfo :: "unit TriaInfo" where
  "blank_TriaInfo =
     \<lparr>PwrMode = [], PolarizationType = [], TxIfPwrDbm = (),
      InterFacilityLinkType_Tria = [], TemperatureCelsius = (), SerialNumber_Tria = [],
      TxRfPwrDbm = (), FwVersion = [], TxIfPwrPercent = 0, TxRfPwrPercent = 0,
      SatStatusBeamColor_Tria = SATELLITE_STATUS_BEAM_COLOR_UNKNOWN, Vendor_Tria = []\<rparr>"

text \<open>
  The object right after construction, and the same object holding the given split
  responses.
\<close>

definition fresh :: "unit SurfBeam2" where
  "fresh = SurfBeam2_constructor blank_ModemInfo blank_TriaInfo"

definition holding :: "QStringList \<Rightarrow> QStringList \<Rightarrow> unit SurfBeam2" where
  "holding modemList triaList =
     fresh\<lparr>mModemRawStringsList := modemList, mTriaRawStringsList := triaList\<rparr>"

text \<open>
  Bytes for the examples: a response cut short after three fields, the text of a
  modem response that splits into 81 fields, all empty but the first, and the text of
  a TRIA response that splits into 84 fields, all empty but the vendor.
\<close>

definition three_fields :: string where
  "three_fields = ''192.168.100.1##00:A0:BC:11:22:33##UT_3.7.8.9.5''"

definition modem_fields :: string where
  "modem_fields = ''192.168.100.1'' @ concat (replicate 80 ''##'')"

definition tria_fields :: string where
  "tria_fields = concat (replicate 81 ''##'') @ ''ViaSat####''"

text \<open>What the examples look at in the outcome of a run.\<close>

definition IpAddress_of :: "fault + 'd SurfBeam2 \<Rightarrow> fault + QString" where
  "IpAddress_of outcome = map_sum id (\<lambda>s. IpAddress (mModemInfo s)) outcome"

definition tracked_modem_reply :: "fault + 'd SurfBeam2 \<Rightarrow> fault + nat" where
  "tracked_modem_reply outcome = map_sum id mReplyModem outcome"

definition reply_deleted :: "nat \<Rightarrow> fault + 'd SurfBeam2 \<Rightarrow> fault + bool" where
  "reply_deleted p outcome = map_sum id (\<lambda>s. deleted (mQnam s ! p)) outcome"

section \<open>The decoding loops\<close>

declare updateModemInfo_loop.simps [simp del] updateTriaInfo_loop.simps [simp del]

lemma fold_preserves:
  assumes "\<And>j s. j \<in> set js \<Longrightarrow> F (body j s) = F s"
  shows "F (fold body js s) = F s"
  using assms by (induction js arbitrary: s) simp_all

text \<open>
  A loop over \<open>i..<n\<close> whose pass \<open>k\<close> alone assigns to \<open>F\<close>, from a part \<open>L\<close> of the
  state that no pass changes, ends with the value assigned in pass \<open>k\<close>.
\<close>

lemma fold_upt_assigns:
  assumes L: "\<And>j s. L (body j s) = L s"
    and other: "\<And>j s. j \<noteq> k \<Longrightarrow> F (body j s) = F s"
    and at: "\<And>s. F (body k s) = G (L s)"
    and "i \<le> k" and "k < n"
  shows "F (fold body [i..<n] s) = G (L s)"
proof -
  have parts: "[i..<n] = [i..<k] @ k # [Suc k..<n]"
    using \<open>i \<le> k\<close> \<open>k < n\<close>
    by (metis le_Suc_ex less_imp_le_nat upt_add_eq_append upt_conv_Cons)
  let ?s1 = "fold body [i..<k] s"
  have "F (fold body [i..<n] s) = F (fold body [Suc k..<n] (body k ?s1))"
    by (simp add: parts)
  also have "\<dots> = F (body k ?s1)"
    by (rule fold_preserves) (simp add: other)
  also have "\<dots> = G (L ?s1)"
    by (rule at)
  also have "L ?s1 = L s"
    by (rule fold_preserves) (rule L)
  finally show ?thesis .
qed

lemma updateModemInfo_loop_fold:
  "updateModemInfo_loop toDouble i s =
     fold (updateModemInfo_case toDouble) [i..<length (mModemRawStringsList s)] s"
proof (induction toDouble i s rule: updateModemInfo_loop.induct)
  case (1 toDouble i s)
  show ?case
  proof (cases "i < length (mModemRawStringsList s)")
    case True
    with 1 show ?thesis
      by (subst updateModemInfo_loop.simps) (simp add: upt_conv_Cons)
  next
    case False
    then show ?thesis
      by (subst updateModemInfo_loop.simps) simp
  qed
qed

lemma updateTriaInfo_loop_fold:
  "updateTriaInfo_loop toDouble i s =
     fold (updateTriaInfo_case toDouble) [i..<length (mTriaRawStringsList s)] s"
proof (induction toDouble i s rule: updateTriaInfo_loop.induct)
  case (1 toDouble i s)
  show ?case
  proof (cases "i < length (mTriaRawStringsList s)")
    case True
    with 1 show ?thesis
      by (subst updateTriaInfo_loop.simps) (simp add: upt_conv_Cons)
  next
    case False
    then show ?thesis
      by (subst updateTriaInfo_loop.simps) simp
  qed
qed

subsection \<open>What a pass leaves alone\<close>

lemma updateModemInfo_case_frame:
  "mTriaInfo (updateModemInfo_case toDouble i s) = mTriaInfo s"
  "mTriaRawStringsList (updateModemInfo_case toDouble i s) = mTriaRawStringsList s"
  "mQnam (updateModemInfo_case toDouble i s) = mQnam s"
  "mReplyModem (updateModemInfo_case toDouble i s) = mReplyModem s"
  "mReplyTria (updateModemInfo_case toDouble i s) = mReplyTria s"
  "mByteArrayModem (updateModemInfo_case toDouble i s) = mByteArrayModem s"
  "mByteArrayTria (updateModemInfo_case toDouble i s) = mByteArrayTria s"
  unfolding updateModemInfo_case_def Let_def
  by (simp_all split del: if_split cong: if_cong
      add: if_distrib [of mTriaInfo] if_distrib [of mTriaRawStringsList] if_distrib [of mQnam]
        if_distrib [of mReplyModem] if_distrib [of mReplyTria] if_distrib [of mByteArrayModem]
        if_distrib [of mByteArrayTria])

lemma updateTriaInfo_case_frame:
  "mModemInfo (updateTriaInfo_case toDouble i s) = mModemInfo s"
  "mModemRawStringsList (updateTriaInfo_case toDouble i s) = mModemRawStringsList s"
  "mQnam (updateTriaInfo_case toDouble i s) = mQnam s"
  "mReplyModem (updateTriaInfo_case toDouble i s) = mReplyModem s"
  "mReplyTria (updateTriaInfo_case toDouble i s) = mReplyTria s"
  "mByteArrayModem (updateTriaInfo_case toDouble i s) = mByteArrayModem s"
  "mByteArrayTria (updateTriaInfo_case toDouble i s) = mByteArrayTria s"
  unfolding updateTriaInfo_case_def Let_def
  by (simp_all split del: if_split cong: if_cong
      add: if_distrib [of mModemInfo] if_distrib [of mModemRawStringsList] if_distrib [of mQnam]
        if_distrib [of mReplyModem] if_distrib [of mReplyTria] if_distrib [of mByteArrayModem]
        if_distrib [of mByteArrayTria])

lemma updateModemInfo_frame:
  "mTriaInfo (updateModemInfo toDouble s) = mTriaInfo s"
  "mTriaRawStringsList (updateModemInfo toDouble s) = mTriaRawStringsList s"
  "mModemRawStringsList (updateModemInfo toDouble s) = mModemRawStringsList s"
  "mQnam (updateModemInfo toDouble s) = mQnam s"
  "mReplyModem (updateModemInfo toDouble s) = mReplyModem s"
  "mReplyTria (updateModemInfo toDouble s) = mReplyTria s"
  "mByteArrayModem (updateModemInfo toDouble s) = mByteArrayModem s"
  "mByteArrayTria (updateModemInfo toDouble s) = mByteArrayTria s"
  unfolding updateModemInfo_def updateModemInfo_loop_fold
  by (rule fold_preserves, simp add: updateModemInfo_case_frame)+

lemma updateTriaInfo_frame:
  "mModemInfo (updateTriaInfo toDouble s) = mModemInfo s"
  "mModemRawStringsList (updateTriaInfo toDouble s) = mModemRawStringsList s"
  "mTriaRawStringsList (updateTriaInfo toDouble s) = mTriaRawStringsList s"
  "mQnam (updateTriaInfo toDouble s) = mQnam s"
  "mReplyModem (updateTriaInfo toDouble s) = mReplyModem s"
  "mReplyTria (updateTriaInfo toDouble s) = mReplyTria s"
  "mByteArrayModem (updateTriaInfo toDouble s) = mByteArrayModem s"
  "mByteArrayTria (updateTriaInfo toDouble s) = mByteArrayTria s"
  unfolding updateTriaInfo_def updateTriaInfo_loop_fold
  by (rule fold_preserves, simp add: updateTriaInfo_case_frame)+

subsection \<open>What the loop stores in a field\<close>

lemma updateModemInfo_assigns:
  assumes "\<And>j s. F (updateModemInfo_case toDouble j s) =
             (if j = k then G (mModemRawStringsList s) else F s)"
    and "k < length (mModemRawStringsList s)"
  shows "F (updateModemInfo toDouble s) = G (mModemRawStringsList s)"
  unfolding updateModemInfo_def updateModemInfo_loop_fold
  by (rule fold_upt_assigns [where L = mModemRawStringsList and k = k and F = F and G = G])
     (simp_all add: assms)

lemma updateTriaInfo_assigns:
  assumes "\<And>j s. F (updateTriaInfo_case toDouble j s) =
             (if j = k then G (mTriaRawStringsList s) else F s)"
    and "k < length (mTriaRawStringsList s)"
  shows "F (updateTriaInfo toDouble s) = G (mTriaRawStringsList s)"
  unfolding updateTriaInfo_def updateTriaInfo_loop_fold
  by (rule fold_upt_assigns [where L = mTriaRawStringsList and k = k and F = F and G = G])
     (simp_all add: assms)

lemma first_match_modem_status:
  "first_match modem_status_keywords MODEM_STATE_UNKNOWN str =
     (if QString_contains_ci str ''scanning'' then MODEM_STATE_SCANNING
      else if QString_contains_ci str ''ranging'' then MODEM_STATE_RANGING
      else if QString_contains_ci str ''network'' then MODEM_STATE_NETWORK_ENTRY
      else if QString_contains_ci str ''dhcp'' then MODEM_STATE_DHCP
      else if QString_contains_ci str ''online'' then MODEM_STATE_ONLINE
      else MODEM_STATE_UNKNOWN)"
  by (simp add: first_match_def modem_status_keywords_def)

lemma first_match_beam_color:
  "first_match beam_color_keywords SATELLITE_STATUS_BEAM_COLOR_UNKNOWN str =
     (if QString_contains_ci str ''blue'' then SATELLITE_STATUS_BEAM_COLOR_BLUE
      else if QString_contains_ci str ''orange'' then SATELLITE_STATUS_BEAM_COLOR_ORANGE
      else if QString_contains_ci str ''purple'' then SATELLITE_STATUS_BEAM_COLOR_PURPLE
      else if QString_contains_ci str ''green'' then SATELLITE_STATUS_BEAM_COLOR_GREEN
      else SATELLITE_STATUS_BEAM_COLOR_UNKNOWN)"
  by (simp add: first_match_def beam_color_keywords_def)

lemma updateModemInfo_case_IpAddress:
  "IpAddress (mModemInfo (updateModemInfo_case toDouble j s)) =
     (if j = 0
      then mModemRawStringsList s ! 0
      else IpAddress (mModemInfo s))"
  unfolding updateModemInfo_case_def Let_def ModemIndexes
  by (cases "j = 0"; simp split del: if_split cong: if_cong
      add: if_distrib [of mModemInfo] if_distrib [of IpAddress])

lemma updateModemInfo_IpAddress:
  assumes "0 < length (mModemRawStringsList s)"
  shows "IpAddress (mModemInfo (updateModemInfo toDouble s)) =
     mModemRawStringsList s ! 0"
proof (rule updateModemInfo_assigns [where F = "\<lambda>s. IpAddress (mModemInfo s)" and k = 0
        and G = "\<lambda>l. l ! 0"])
qed (use assms in \<open>simp_all add: updateModemInfo_case_IpAddress\<close>)

lemma updateModemInfo_case_RxPackets:
  "RxPackets (mModemInfo (updateModemInfo_case toDouble j s)) =
     (if j = 5
      then QString_toULongLong (QString_remove CHR '','' (mModemRawStringsList s ! 5))
      else RxPackets (mModemInfo s))"
  unfolding updateModemInfo_case_def Let_def ModemIndexes
  by (cases "j = 5"; simp split del: if_split cong: if_cong
      add: if_distrib [of mModemInfo] if_distrib [of RxPackets])

lemma updateModemInfo_RxPackets:
  assumes "5 < length (mModemRawStringsList s)"
  shows "RxPackets (mModemInfo (updateModemInfo toDouble s)) =
     QString_toULongLong (QString_remove CHR '','' (mModemRawStringsList s ! 5))"
proof (rule updateModemInfo_assigns [where F = "\<lambda>s. RxPackets (mModemInfo s)" and k = 5
        and G = "\<lambda>l. QString_toULongLong (QString_remove CHR '','' (l ! 5))"])
qed (use assms in \<open>simp_all add: updateModemInfo_case_RxPackets\<close>)

lemma updateModemInfo_case_RxBytes:
  "RxBytes (mModemInfo (updateModemInfo_case toDouble j s)) =
     (if j = 6
      then QString_toULongLong (QString_remove CHR '','' (mModemRawStringsList s ! 6))
      else RxBytes (mModemInfo s))"
  unfolding updateModemInfo_case_def Let_def ModemIndexes
  by (cases "j = 6"; simp split del: if_split cong: if_cong
      add: if_distrib [of mModemInfo] if_distrib [of RxBytes])

lemma updateModemInfo_RxBytes:
  assumes "6 < length (mModemRawStringsList s)"
  shows "RxBytes (mModemInfo (updateModemInfo toDouble s)) =
     QString_toULongLong (QString_remove CHR '','' (mModemRawStringsList s ! 6))"
proof (rule updateModemInfo_assigns [where F = "\<lambda>s. RxBytes (mModemInfo s)" and k = 6
        and G = "\<lambda>l. QString_toULongLong (QString_remove CHR '','' (l ! 6))"])
qed (use assms in \<open>simp_all add: updateModemInfo_case_RxBytes\<close>)

lemma updateModemInfo_case_TxPackets:
  "TxPackets (mModemInfo (updateModemInfo_case toDouble j s)) =
     (if j = 7
      then QString_toULongLong (QString_remove CHR '','' (mModemRawStringsList s ! 7))
      else TxPackets (mModemInfo s))"
  unfolding updateModemInfo_case_def Let_def ModemIndexes
  by (cases "j = 7"; simp split del: if_split cong: if_cong
      add: if_distrib [of mModemInfo] if_distrib [of TxPackets])

lemma updateModemInfo_TxPackets:
  assumes "7 < length (mModemRawStringsList s)"
  shows "TxPackets (mModemInfo (updateModemInfo toDouble s)) =
     QString_toULongLong (QString_remove CHR '','' (mModemRawStringsList s ! 7))"
proof (rule updateModemInfo_assigns [where F = "\<lambda>s. TxPackets (mModemInfo s)" and k = 7
        and G = "\<lambda>l. QString_toULongLong (QString_remove CHR '','' (l ! 7))"])
qed (use assms in \<open>simp_all add: updateModemInfo_case_TxPackets\<close>)

lemma updateModemInfo_case_TxBytes:
  "TxBytes (mModemInfo (updateModemInfo_case toDouble j s)) =
     (if j = 8
      then QString_toULongLong (QString_remove CHR '','' (mModemRawStringsList s ! 8))
      else TxBytes (mModemInfo s))"
  unfolding updateModemInfo_case_def Let_def ModemIndexes
  by (cases "j = 8"; simp split del: if_split cong: if_cong
      add: if_distrib [of mModemInfo] if_distrib [of TxBytes])

lemma updateModemInfo_TxBytes:
  assumes "8 < length (mModemRawStringsList s)"
  shows "TxBytes (mModemInfo (updateModemInfo toDouble s)) =
     QString_toULongLong (QString_remove CHR '','' (mModemRawStringsList s ! 8))"
proof (rule updateModemInfo_assigns [where F = "\<lambda>s. TxBytes (mModemInfo s)" and k = 8
        and G = "\<lambda>l. QString_toULongLong (QString_remove CHR '','' (l ! 8))"])
qed (use assms in \<open>simp_all add: updateModemInfo_case_TxBytes\<close>)

lemma updateModemInfo_case_RxSnrPercent:
  "RxSnrPercent (mModemInfo (updateModemInfo_case toDouble j s)) =
     (if j = 12
      then ucast (QString_toUShort (QString_remove CHR ''%'' (mModemRawStringsList s ! 12)))
      else RxSnrPercent (mModemInfo s))"
  unfolding updateModemInfo_case_def Let_def ModemIndexes
  by (cases "j = 12"; simp split del: if_split cong: if_cong
      add: if_distrib [of mModemInfo] if_distrib [of RxSnrPercent])

lemma updateModemInfo_RxSnrPercent:
  assumes "12 < length (mModemRawStringsList s)"
  shows "RxSnrPercent (mModemInfo (updateModemInfo toDouble s)) =
     ucast (QString_toUShort (QString_remove CHR ''%'' (mModemRawStringsList s ! 12)))"
proof (rule updateModemInfo_assigns [where F = "\<lambda>s. RxSnrPercent (mModemInfo s)" and k = 12
        and G = "\<lambda>l. ucast (QString_toUShort (QString_remove CHR ''%'' (l ! 12)))"])
qed (use assms in \<open>simp_all add: updateModemInfo_case_RxSnrPercent\<close>)

lemma updateModemInfo_case_RxPwrPercent:
  "RxPwrPercent (mModemInfo (updateModemInfo_case toDouble j s)) =
     (if j = 15
      then ucast (QString_toUShort (QString_remove CHR ''%'' (mModemRawStringsList s ! 15)))
      else RxPwrPercent (mModemInfo s))"
  unfolding updateModemInfo_case_def Let_def ModemIndexes
  by (cases "j = 15"; simp split del: if_split cong: if_cong
      add: if_distrib [of mModemInfo] if_distrib [of RxPwrPercent])

lemma updateModemInfo_RxPwrPercent:
  assumes "15 < length (mModemRawStringsList s)"
  shows "RxPwrPercent (mModemInfo (updateModemInfo toDouble s)) =
     ucast (QString_toUShort (QString_remove CHR ''%'' (mModemRawStringsList s ! 15)))"
proof (rule updateModemInfo_assigns [where F = "\<lambda>s. RxPwrPercent (mModemInfo s)" and k = 15
        and G = "\<lambda>l. ucast (QString_toUShort (QString_remove CHR ''%'' (l ! 15)))"])
qed (use assms in \<open>simp_all add: updateModemInfo_case_RxPwrPercent\<close>)

lemma updateModemInfo_case_CableResistancePercent:
  "CableResistancePercent (mModemInfo (updateModemInfo_case toDouble j s)) =
     (if j = 17
      then ucast (QString_toUShort (QString_remove CHR ''%'' (mModemRawStringsList s ! 17)))
      else CableResistancePercent (mModemInfo s))"
  unfolding updateModemInfo_case_def Let_def ModemIndexes
  by (cases "j = 17"; simp split del: if_split cong: if_cong
      add: if_distrib [of mModemInfo] if_distrib [of CableResistancePercent])

lemma updateModemInfo_CableResistancePercent:
  assumes "17 < length (mModemRawStringsList s)"
  shows "CableResistancePercent (mModemInfo (updateModemInfo toDouble s)) =
     ucast (QString_toUShort (QString_remove CHR ''%'' (mModemRawStringsList s ! 17)))"
proof (rule updateModemInfo_assigns [where F = "\<lambda>s. CableResistancePercent (mModemInfo s)" and k = 17
        and G = "\<lambda>l. ucast (QString_toUShort (QString_remove CHR ''%'' (l ! 17)))"])
qed (use assms in \<open>simp_all add: updateModemInfo_case_CableResistancePercent\<close>)

lemma updateModemInfo_case_CableAttenuationPercent:
  "CableAttenuationPercent (mModemInfo (updateModemInfo_case toDouble j s)) =
     (if j = 20
      then ucast (QString_toUShort (QString_remove CHR ''%'' (mModemRawStringsList s ! 20)))
      else CableAttenuationPercent (mModemInfo s))"
  unfolding updateModemInfo_case_def Let_def ModemIndexes
  by (cases "j = 20"; simp split del: if_split cong: if_cong
      add: if_distrib [of mModemInfo] if_distrib [of CableAttenuationPercent])

lemma updateModemInfo_CableAttenuationPercent:
  assumes "20 < length (mModemRawStringsList s)"
  shows "CableAttenuationPercent (mModemInfo (updateModemInfo toDouble s)) =
     ucast (QString_toUShort (QString_remove CHR ''%'' (mModemRawStringsList s ! 20)))"
proof (rule updateModemInfo_assigns [where F = "\<lambda>s. CableAttenuationPercent (mModemInfo s)" and k = 20
        and G = "\<lambda>l. ucast (QString_toUShort (QString_remove CHR ''%'' (l ! 20)))"])
qed (use assms in \<open>simp_all add: updateModemInfo_case_CableAttenuationPercent\<close>)

lemma updateModemInfo_case_ModemStatus:
  "ModemStatus (mModemInfo (updateModemInfo_case toDouble j s)) =
     (if j = 23
      then first_match modem_status_keywords MODEM_STATE_UNKNOWN (mModemRawStringsList s ! 23)
      else ModemStatus (mModemInfo s))"
  unfolding updateModemInfo_case_def Let_def ModemIndexes
  by (cases "j = 23"; simp split del: if_split cong: if_cong
      add: if_distrib [of mModemInfo] if_distrib [of ModemStatus]
        first_match_modem_status)

lemma updateModemInfo_ModemStatus:
  assumes "23 < length (mModemRawStringsList s)"
  shows "ModemStatus (mModemInfo (updateModemInfo toDouble s)) =
     first_match modem_status_keywords MODEM_STATE_UNKNOWN (mModemRawStringsList s ! 23)"
proof (rule updateModemInfo_assigns [where F = "\<lambda>s. ModemStatus (mModemInfo s)" and k = 23
        and G = "\<lambda>l. first_match modem_status_keywords MODEM_STATE_UNKNOWN (l ! 23)"])
qed (use assms in \<open>simp_all add: updateModemInfo_case_ModemStatus\<close>)

lemma updateModemInfo_case_SatStatusBeamColor:
  "SatStatusBeamColor (mModemInfo (updateModemInfo_case toDouble j s)) =
     (if j = 24
      then first_match beam_color_keywords SATELLITE_STATUS_BEAM_COLOR_UNKNOWN (mModemRawStringsList s ! 24)
      else SatStatusBeamColor (mModemInfo s))"
  unfolding updateModemInfo_case_def Let_def ModemIndexes
  by (cases "j = 24"; simp split del: if_split cong: if_cong
      add: if_distrib [of mModemInfo] if_distrib [of SatStatusBeamColor]
        first_match_beam_color)

lemma updateModemInfo_SatStatusBeamColor:
  assumes "24 < length (mModemRawStringsList s)"
  shows "SatStatusBeamColor (mModemInfo (updateModemInfo toDouble s)) =
     first_match beam_color_keywords SATELLITE_STATUS_BEAM_COLOR_UNKNOWN (mModemRawStringsList s ! 24)"
proof (rule updateModemInfo_assigns [where F = "\<lambda>s. SatStatusBeamColor (mModemInfo s)" and k = 24
        and G = "\<lambda>l. first_match beam_color_keywords SATELLITE_STATUS_BEAM_COLOR_UNKNOWN (l ! 24)"])
qed (use assms in \<open>simp_all add: updateModemInfo_case_SatStatusBeamColor\<close>)

lemma updateTriaInfo_case_TxIfPwrPercent:
  "TxIfPwrPercent (mTriaInfo (updateTriaInfo_case toDouble j s)) =
     (if j = 25
      then ucast (QString_toUShort (QString_remove CHR ''%'' (mTriaRawStringsList s ! 25)))
      else TxIfPwrPercent (mTriaInfo s))"
  unfolding updateTriaInfo_case_def Let_def TriaIndexes
  by (cases "j = 25"; simp split del: if_split cong: if_cong
      add: if_distrib [of mTriaInfo] if_distrib [of TxIfPwrPercent])

lemma updateTriaInfo_TxIfPwrPercent:
  assumes "25 < length (mTriaRawStringsList s)"
  shows "TxIfPwrPercent (mTriaInfo (updateTriaInfo toDouble s)) =
     ucast (QString_toUShort (QString_remove CHR ''%'' (mTriaRawStringsList s ! 25)))"
proof (rule updateTriaInfo_assigns [where F = "\<lambda>s. TxIfPwrPercent (mTriaInfo s)" and k = 25
        and G = "\<lambda>l. ucast (QString_toUShort (QString_remove CHR ''%'' (l ! 25)))"])
qed (use assms in \<open>simp_all add: updateTriaInfo_case_TxIfPwrPercent\<close>)

lemma updateTriaInfo_case_TxRfPwrPercent:
  "TxRfPwrPercent (mTriaInfo (updateTriaInfo_case toDouble j s)) =
     (if j = 26
      then ucast (QString_toUShort (QString_remove CHR ''%'' (mTriaRawStringsList s ! 26)))
      else TxRfPwrPercent (mTriaInfo s))"
  unfolding updateTriaInfo_case_def Let_def TriaIndexes
  by (cases "j = 26"; simp split del: if_split cong: if_cong
      add: if_distrib [of mTriaInfo] if_distrib [of TxRfPwrPercent])

lemma updateTriaInfo_TxRfPwrPercent:
  assumes "26 < length (mTriaRawStringsList s)"
  shows "TxRfPwrPercent (mTriaInfo (updateTriaInfo toDouble s)) =
     ucast (QString_toUShort (QString_remove CHR ''%'' (mTriaRawStringsList s ! 26)))"
proof (rule updateTriaInfo_assigns [where F = "\<lambda>s. TxRfPwrPercent (mTriaInfo s)" and k = 26
        and G = "\<lambda>l. ucast (QString_toUShort (QString_remove CHR ''%'' (l ! 26)))"])
qed (use assms in \<open>simp_all add: updateTriaInfo_case_TxRfPwrPercent\<close>)

lemma updateTriaInfo_case_SatStatusBeamColor_Tria:
  "SatStatusBeamColor_Tria (mTriaInfo (updateTriaInfo_case toDouble j s)) =
     (if j = 29
      then first_match beam_color_keywords SATELLITE_STATUS_BEAM_COLOR_UNKNOWN (mTriaRawStringsList s ! 29)
      else SatStatusBeamColor_Tria (mTriaInfo s))"
  unfolding updateTriaInfo_case_def Let_def TriaIndexes
  by (cases "j = 29"; simp split del: if_split cong: if_cong
      add: if_distrib [of mTriaInfo] if_distrib [of SatStatusBeamColor_Tria]
        first_match_beam_color)

lemma updateTriaInfo_SatStatusBeamColor_Tria:
  assumes "29 < length (mTriaRawStringsList s)"
  shows "SatStatusBeamColor_Tria (mTriaInfo (updateTriaInfo toDouble s)) =
     first_match beam_color_keywords SATELLITE_STATUS_BEAM_COLOR_UNKNOWN (mTriaRawStringsList s ! 29)"
proof (rule updateTriaInfo_assigns [where F = "\<lambda>s. SatStatusBeamColor_Tria (mTriaInfo s)" and k = 29
        and G = "\<lambda>l. first_match beam_color_keywords SATELLITE_STATUS_BEAM_COLOR_UNKNOWN (l ! 29)"])
qed (use assms in \<open>simp_all add: updateTriaInfo_case_SatStatusBeamColor_Tria\<close>)

lemma updateTriaInfo_case_Vendor_Tria:
  "Vendor_Tria (mTriaInfo (updateTriaInfo_case toDouble j s)) =
     (if j = 81
      then mTriaRawStringsList s ! 81
      else Vendor_Tria (mTriaInfo s))"
  unfolding updateTriaInfo_case_def Let_def TriaIndexes
  by (cases "j = 81"; simp split del: if_split cong: if_cong
      add: if_distrib [of mTriaInfo] if_distrib [of Vendor_Tria])

lemma updateTriaInfo_Vendor_Tria:
  assumes "81 < length (mTriaRawStringsList s)"
  shows "Vendor_Tria (mTriaInfo (updateTriaInfo toDouble s)) =
     mTriaRawStringsList s ! 81"
proof (rule updateTriaInfo_assigns [where F = "\<lambda>s. Vendor_Tria (mTriaInfo s)" and k = 81
        and G = "\<lambda>l. l ! 81"])
qed (use assms in \<open>simp_all add: updateTriaInfo_case_Vendor_Tria\<close>)

section \<open>Facts about the Qt string operations\<close>

lemma occurs_in_iff: "occurs_in str whole \<longleftrightarrow> (\<exists>pre post. whole = pre @ str @ post)"
proof (induction whole)
  case Nil
  then show ?case by auto
next
  case (Cons c cs)
  show ?case
  proof
    assume "occurs_in str (c # cs)"
    then consider "prefix str (c # cs)" | "occurs_in str cs" by auto
    then show "\<exists>pre post. c # cs = pre @ str @ post"
    proof cases
      case 1
      then obtain post where "c # cs = str @ post" by (auto simp: prefix_def)
      then have "c # cs = [] @ str @ post" by simp
      then show ?thesis by blast
    next
      case 2
      with Cons obtain pre post where "cs = pre @ str @ post" by blast
      then have "c # cs = (c # pre) @ str @ post" by simp
      then show ?thesis by blast
    qed
  next
    assume "\<exists>pre post. c # cs = pre @ str @ post"
    then obtain pre post where eq: "c # cs = pre @ str @ post" by blast
    show "occurs_in str (c # cs)"
    proof (cases pre)
      case Nil
      with eq have "prefix str (c # cs)" by (simp add: prefix_def)
      then show ?thesis by simp
    next
      case (Cons p ps)
      with eq have "cs = ps @ str @ post" by simp
      with Cons.IH have "occurs_in str cs" by blast
      then show ?thesis by simp
    qed
  qed
qed

lemma QString_contains_ci_iff:
  "QString_contains_ci whole str \<longleftrightarrow>
     (\<exists>pre mid post. whole = pre @ mid @ post \<and>
        map QChar_toCaseFolded mid = map QChar_toCaseFolded str)"
proof
  let ?f = "map QChar_toCaseFolded"
  assume "QString_contains_ci whole str"
  then obtain a b where "?f whole = a @ (?f str @ b)"
    by (auto simp: QString_contains_ci_def occurs_in_iff)
  then have "\<exists>us vs. whole = us @ vs \<and> a = ?f us \<and> ?f str @ b = ?f vs"
    by (simp only: map_eq_append_conv)
  then obtain pre rest where 1: "whole = pre @ rest" and "?f str @ b = ?f rest"
    by blast
  then have "?f rest = ?f str @ b"
    by simp
  then have "\<exists>us vs. rest = us @ vs \<and> ?f str = ?f us \<and> b = ?f vs"
    by (simp only: map_eq_append_conv)
  then obtain mid post where "rest = mid @ post" and "?f mid = ?f str"
    by auto
  with 1 show "\<exists>pre mid post. whole = pre @ mid @ post \<and> ?f mid = ?f str"
    by blast
next
  assume "\<exists>pre mid post. whole = pre @ mid @ post \<and>
        map QChar_toCaseFolded mid = map QChar_toCaseFolded str"
  then obtain pre mid post where "whole = pre @ mid @ post"
    and "map QChar_toCaseFolded mid = map QChar_toCaseFolded str"
    by blast
  then have "map QChar_toCaseFolded whole =
      map QChar_toCaseFolded pre @ map QChar_toCaseFolded str @ map QChar_toCaseFolded post"
    by simp
  then show "QString_contains_ci whole str"
    unfolding QString_contains_ci_def occurs_in_iff by blast
qed

lemma toIntegral_unsigned_less: "toIntegral_unsigned bits str < 2 ^ bits"
  by (simp add: toIntegral_unsigned_def split: option.split)

lemma unat_toULongLong: "unat (QString_toULongLong str) = toIntegral_unsigned 64 str"
  using toIntegral_unsigned_less [of 64 str]
  by (simp add: QString_toULongLong_def unat_of_nat)

lemma unat_toUShort: "unat (QString_toUShort str) = toIntegral_unsigned 16 str"
  using toIntegral_unsigned_less [of 16 str]
  by (simp add: QString_toUShort_def unat_of_nat)

lemma unat_percent:
  "unat (ucast (QString_toUShort str) :: 8 word) = toIntegral_unsigned 16 str mod 256"
  by (simp add: unsigned_ucast_eq take_bit_eq_mod unat_toUShort)

lemma parse_digits_digits:
  "\<forall>c\<in>set str. QChar_isDigit c \<Longrightarrow>
     parse_digits acc str = Some (foldl (\<lambda>a c. 10 * a + (of_char c - 48)) acc str)"
  by (induction str arbitrary: acc) simp_all

lemma replicate_numeral: "replicate (numeral k) c = c # replicate (pred_numeral k) c"
  unfolding numeral_eq_Suc by simp

lemma eq_char_of_iff: "c = char_of n \<longleftrightarrow> take_bit 8 n = of_char c"
  using char_of_eq_iff [of n c] by auto

lemmas qt_eval =
  QString_toULongLong_def QString_toUShort_def QString_remove_def toIntegral_unsigned_def
  parseUnsigned_def QString_trimmed_def QChar_isSpace_def QChar_isDigit_def
  QString_contains_ci_def QChar_toCaseFolded_def char_of_eq_iff eq_char_of_iff

lemma holding_lists [simp]:
  "mModemRawStringsList (holding modemList triaList) = modemList"
  "mTriaRawStringsList (holding modemList triaList) = triaList"
  by (simp_all add: holding_def)

section \<open>Facts about the poll driver\<close>

lemma split_modem_fields:
  "QString_split FIELD_DELIMITER modem_fields = ''192.168.100.1'' # replicate 80 []"
  by (simp add: QString_split_def FIELD_DELIMITER_def modem_fields_def replicate_numeral)

lemma split_tria_fields:
  "QString_split FIELD_DELIMITER tria_fields = replicate 81 [] @ [''ViaSat'', [], []]"
  by (simp add: QString_split_def FIELD_DELIMITER_def tria_fields_def replicate_numeral)

lemma split_three_fields:
  "QString_split FIELD_DELIMITER three_fields =
     [''192.168.100.1'', ''00:A0:BC:11:22:33'', ''UT_3.7.8.9.5'']"
  by (simp add: QString_split_def FIELD_DELIMITER_def three_fields_def)

lemma fresh_eq:
  "fresh = \<lparr>mModemRawStringsList = [], mTriaRawStringsList = [],
        mModemInfo = blank_ModemInfo, mTriaInfo = blank_TriaInfo,
        mQnam = [\<lparr>request = Modem, received = [], unread = [], deleted = False\<rparr>,
                 \<lparr>request = Tria, received = [], unread = [], deleted = False\<rparr>],
        mReplyModem = 0, mReplyTria = 1, mByteArrayModem = [], mByteArrayTria = []\<rparr>"
  by (simp add: fresh_def SurfBeam2_constructor_def startCgiRequest_def
      QNetworkAccessManager_get_def Let_def)

section \<open>Derived metrics: the percent formulas\<close>

text \<open>
  C3. Each of the five percent functions is a function of its argument alone; at and
  above its knee (0.0, -72.586, -3.0, -35.5 and 14.5) it returns the documented linear
  formula with the documented coefficients, and below the knee it returns 0.
\<close>

theorem percent_formulas:
  "(0 \<le> x \<longrightarrow> getCableAttenuationPercent x = x * 6.66666) \<and>
   (x < 0 \<longrightarrow> getCableAttenuationPercent x = 0) \<and>
   (- 72.586 \<le> x \<longrightarrow> getRxPwrPercent x = 119.42208 + x * 1.64524) \<and>
   (x < - 72.586 \<longrightarrow> getRxPwrPercent x = 0) \<and>
   (- 3.0 \<le> x \<longrightarrow> getRxSnrPercent x = 10.71429 + x * 3.57143) \<and>
   (x < - 3.0 \<longrightarrow> getRxSnrPercent x = 0) \<and>
   (- 35.5 \<le> x \<longrightarrow> getTxIfPwrPercent x = 137.86408 + x * 3.8835) \<and>
   (x < - 35.5 \<longrightarrow> getTxIfPwrPercent x = 0) \<and>
   (14.5 \<le> x \<longrightarrow> getTxRfPwrPercent x = - 56.31068 + x * 3.8835) \<and>
   (x < 14.5 \<longrightarrow> getTxRfPwrPercent x = 0)"
  by (simp add: percent_defs)

text \<open>The formulas at 20, above every knee, and at -100, below every knee.\<close>

theorem percent_formulas_witness:
  "getCableAttenuationPercent 20 = 133.3332 \<and> getCableAttenuationPercent (- 100) = 0 \<and>
   getRxPwrPercent 20 = 152.32688 \<and> getRxPwrPercent (- 100) = 0 \<and>
   getRxSnrPercent 20 = 82.14289 \<and> getRxSnrPercent (- 100) = 0 \<and>
   getTxIfPwrPercent 20 = 215.53408 \<and> getTxIfPwrPercent (- 100) = 0 \<and>
   getTxRfPwrPercent 20 = 21.35932 \<and> getTxRfPwrPercent (- 100) = 0"
  using percent_formulas [of 20] percent_formulas [of "- 100"] by simp

text \<open>
  C4, as amended. Every percent function is monotonic non-decreasing on the inputs at
  or above its knee and is exactly 0 below the knee. At the knee itself the comparison
  \<open>>=\<close> selects the linear formula: its value there is exactly 0 for the cable
  attenuation and the Rx SNR, and 0.00068936, -0.00017 and 0.00007 for the Rx power,
  the Tx IF power and the Tx RF power. In particular \<open>getRxSnrPercent(-3.0)\<close> is 0, and
  \<open>getRxSnrPercent(10.0)\<close> is 46.4286 within 1e-3.
\<close>

theorem percent_monotone_and_knee:
  "(0 \<le> x \<and> x \<le> y \<longrightarrow> getCableAttenuationPercent x \<le> getCableAttenuationPercent y) \<and>
   (- 72.586 \<le> x \<and> x \<le> y \<longrightarrow> getRxPwrPercent x \<le> getRxPwrPercent y) \<and>
   (- 3.0 \<le> x \<and> x \<le> y \<longrightarrow> getRxSnrPercent x \<le> getRxSnrPercent y) \<and>
   (- 35.5 \<le> x \<and> x \<le> y \<longrightarrow> getTxIfPwrPercent x \<le> getTxIfPwrPercent y) \<and>
   (14.5 \<le> x \<and> x \<le> y \<longrightarrow> getTxRfPwrPercent x \<le> getTxRfPwrPercent y) \<and>
   (x < 0 \<longrightarrow> getCableAttenuationPercent x = 0) \<and>
   (x < - 72.586 \<longrightarrow> getRxPwrPercent x = 0) \<and>
   (x < - 3.0 \<longrightarrow> getRxSnrPercent x = 0) \<and>
   (x < - 35.5 \<longrightarrow> getTxIfPwrPercent x = 0) \<and>
   (x < 14.5 \<longrightarrow> getTxRfPwrPercent x = 0) \<and>
   getCableAttenuationPercent 0 = 0 \<and>
   getRxPwrPercent (- 72.586) = 0.00068936 \<and>
   getRxSnrPercent (- 3.0) = 0 \<and>
   getTxIfPwrPercent (- 35.5) = - 0.00017 \<and>
   getTxRfPwrPercent 14.5 = 0.00007 \<and>
   \<bar>getRxSnrPercent 10.0 - 46.4286\<bar> \<le> 1 / 1000"
  by (simp add: percent_defs)

text \<open>Monotonicity between 20 and 30, and the value 0 at -100.\<close>

theorem percent_monotone_and_knee_witness:
  "getCableAttenuationPercent 20 \<le> getCableAttenuationPercent 30 \<and>
   getRxPwrPercent 20 \<le> getRxPwrPercent 30 \<and>
   getRxSnrPercent 20 \<le> getRxSnrPercent 30 \<and>
   getTxIfPwrPercent 20 \<le> getTxIfPwrPercent 30 \<and>
   getTxRfPwrPercent 20 \<le> getTxRfPwrPercent 30 \<and>
   getCableAttenuationPercent (- 100) = 0 \<and>
   getRxPwrPercent (- 100) = 0 \<and>
   getRxSnrPercent (- 100) = 0 \<and>
   getTxIfPwrPercent (- 100) = 0 \<and>
   getTxRfPwrPercent (- 100) = 0"
  using percent_monotone_and_knee [of 20 30] percent_monotone_and_knee [of "- 100" 0]
  by simp

text \<open>
  C4 as stated fails at the knees: \<open>getRxSnrPercent(-3.0)\<close> is not within 1e-3 of
  10.71429, and three of the functions are not 0 at their knee.
\<close>

theorem percent_knee_counterexample:
  "\<bar>getRxSnrPercent (- 3.0) - 10.71429\<bar> > 1 / 1000 \<and>
   getRxPwrPercent (- 72.586) \<noteq> 0 \<and>
   getTxIfPwrPercent (- 35.5) \<noteq> 0 \<and>
   getTxRfPwrPercent 14.5 \<noteq> 0"
  by (simp add: percent_defs)

section \<open>Derived metrics: power in Watts and as text\<close>

lemmas number_eval =
  QString_number_def number_fixed_def digits.simps char_of_eq_iff replicate_numeral

lemma convertDbmToWatts_30: "convertDbmToWatts 30 = 1"
  by (simp add: convertDbmToWatts_def)

lemma convertDbmToWatts_minus_30: "convertDbmToWatts (- 30) = 1 / 10 ^ 6"
  by (simp add: convertDbmToWatts_def powr_minus_divide)

lemma convertDbmToWatts_0: "convertDbmToWatts 0 = 1 / 10 ^ 3"
  by (simp add: convertDbmToWatts_def powr_minus_divide)

text \<open>
  C5, as amended. \<open>convertDbmToWatts(30.0)\<close> is 1.0 and \<open>convertDbmToQstring(30.0)\<close>
  is \<open>1.000 W\<close>; \<open>convertDbmToQstring(-30.0)\<close> is one microwatt, \<open>1.0\<close> followed by a
  blank, the small mu and \<open>W\<close>; the text \<open>1.0 mW\<close> is what \<open>convertDbmToQstring(0.0)\<close>
  returns.
\<close>

theorem power_string_examples:
  "convertDbmToWatts 30.0 = 1.0 \<and>
   convertDbmToQstring 30.0 = ''1.000 W'' \<and>
   convertDbmToQstring (- 30.0) = ''1.0 '' @ MU_SMALL @ ''W'' \<and>
   convertDbmToQstring 0 = ''1.0 mW''"
  by (simp add: convertDbmToQstring_def convertDbmToWatts_30 convertDbmToWatts_minus_30
      convertDbmToWatts_0 number_eval)

text \<open>C5 as stated fails: \<open>convertDbmToQstring(-30.0)\<close> is not \<open>1.0 mW\<close>.\<close>

theorem power_string_counterexample:
  "convertDbmToQstring (- 30.0) \<noteq> ''1.0 mW''"
  by (simp add: convertDbmToQstring_def convertDbmToWatts_minus_30 number_eval MU_SMALL_def)

text \<open>
  C6. For every input, \<open>convertDbmToQstring\<close> renders the power \<open>10^(0.1*(dBm-30))\<close> in
  the largest of the units W, mW, \<open>\<mu>\<close>W, nW, pW, fW in which the magnitude is at least
  1, with 3 decimals for W and 1 decimal for the others, and in the general format with
  3 significant digits when the magnitude is below 1 fW.
\<close>

theorem power_string_units:
  "convertDbmToQstring aDbm = documented_power_string aDbm"
  by (simp add: convertDbmToQstring_def documented_power_string_def convertDbmToWatts_def
      power_units_def Let_def)

section \<open>Field decoder: the typed fields\<close>

text \<open>
  C2, as amended. For each of the four counters with grouping (Rx and Tx packets and
  bytes, modem indices 5 to 8) the decoder removes every comma and converts the rest to
  an unsigned 64-bit integer; when the rest is not a number, or does not fit 64 bits,
  the field is set to 0 and the decoding goes on: no error is raised.
\<close>

theorem grouped_counters:
  "MODEM_INDEX_TX_BYTES < length (mModemRawStringsList s) \<longrightarrow>
     unat (RxPackets (mModemInfo (updateModemInfo toDouble s))) =
       (case parseUnsigned
               (QString_remove CHR '','' (mModemRawStringsList s ! MODEM_INDEX_RX_PACKETS)) of
          None \<Rightarrow> 0 | Some v \<Rightarrow> if v < 2 ^ 64 then v else 0) \<and>
     unat (RxBytes (mModemInfo (updateModemInfo toDouble s))) =
       (case parseUnsigned
               (QString_remove CHR '','' (mModemRawStringsList s ! MODEM_INDEX_RX_BYTES)) of
          None \<Rightarrow> 0 | Some v \<Rightarrow> if v < 2 ^ 64 then v else 0) \<and>
     unat (TxPackets (mModemInfo (updateModemInfo toDouble s))) =
       (case parseUnsigned
               (QString_remove CHR '','' (mModemRawStringsList s ! MODEM_INDEX_TX_PACKETS)) of
          None \<Rightarrow> 0 | Some v \<Rightarrow> if v < 2 ^ 64 then v else 0) \<and>
     unat (TxBytes (mModemInfo (updateModemInfo toDouble s))) =
       (case parseUnsigned
               (QString_remove CHR '','' (mModemRawStringsList s ! MODEM_INDEX_TX_BYTES)) of
          None \<Rightarrow> 0 | Some v \<Rightarrow> if v < 2 ^ 64 then v else 0)"
  by (simp add: ModemIndexes updateModemInfo_RxPackets updateModemInfo_RxBytes
      updateModemInfo_TxPackets updateModemInfo_TxBytes unat_toULongLong
      toIntegral_unsigned_def)

text \<open>
  A response of 81 fields whose counters are a text that is no number, a number one
  past the 64-bit range, a grouped number and a number in blanks.
\<close>

theorem grouped_counters_witness:
  "unat (RxPackets (mModemInfo (updateModemInfo no_double
      (holding ((replicate 81 [])[5 := ''abc'', 6 := ''18,446,744,073,709,551,616'',
          7 := ''1,234,567'', 8 := '' 42 '']) [])))) = 0 \<and>
   unat (RxBytes (mModemInfo (updateModemInfo no_double
      (holding ((replicate 81 [])[5 := ''abc'', 6 := ''18,446,744,073,709,551,616'',
          7 := ''1,234,567'', 8 := '' 42 '']) [])))) = 0 \<and>
   unat (TxPackets (mModemInfo (updateModemInfo no_double
      (holding ((replicate 81 [])[5 := ''abc'', 6 := ''18,446,744,073,709,551,616'',
          7 := ''1,234,567'', 8 := '' 42 '']) [])))) = 1234567 \<and>
   unat (TxBytes (mModemInfo (updateModemInfo no_double
      (holding ((replicate 81 [])[5 := ''abc'', 6 := ''18,446,744,073,709,551,616'',
          7 := ''1,234,567'', 8 := '' 42 '']) [])))) = 42"
  using grouped_counters [of "holding ((replicate 81 [])[5 := ''abc'',
      6 := ''18,446,744,073,709,551,616'', 7 := ''1,234,567'', 8 := '' 42 '']) []" no_double]
  by (simp add: ModemIndexes qt_eval)

text \<open>
  C2 as stated fails: with \<open>12,3x4\<close> for the Tx packets the rest \<open>123x4\<close> is no number,
  yet the field becomes 0 and the later fields are decoded as usual.
\<close>

theorem grouped_counters_counterexample:
  "parseUnsigned (QString_remove CHR '','' ''12,3x4'') = None \<and>
   TxPackets (mModemInfo (updateModemInfo no_double
      (holding ((replicate 81 [])[7 := ''12,3x4'', 23 := ''Online'']) []))) = 0 \<and>
   ModemStatus (mModemInfo (updateModemInfo no_double
      (holding ((replicate 81 [])[7 := ''12,3x4'', 23 := ''Online'']) []))) = MODEM_STATE_ONLINE"
  by (simp add: updateModemInfo_TxPackets updateModemInfo_ModemStatus first_match_modem_status
      qt_eval)

lemma first_match_none:
  assumes "\<forall>keyword\<in>set (map fst keywords). \<not> QString_contains_ci str keyword"
  shows "first_match keywords unknown str = unknown"
proof -
  have "find (\<lambda>(keyword, member). QString_contains_ci str keyword) keywords = None"
    using assms by (auto simp: find_None_iff)
  then show ?thesis by (simp add: first_match_def)
qed

text \<open>
  C7, as amended. The modem status and the two beam colours are decoded by the first
  keyword of the ordered list that occurs in the field, letter case ignored, and a
  field with none of the keywords gives the unknown member, never an error. A modem
  status that contains \<open>online\<close> in any letter case gives the online state provided
  that none of the four earlier keywords occurs in it.
\<close>

theorem categorical_fields:
  "(MODEM_INDEX_SATELLITE_STATUS < length (mModemRawStringsList s) \<longrightarrow>
      ModemStatus (mModemInfo (updateModemInfo toDouble s)) =
        first_match modem_status_keywords MODEM_STATE_UNKNOWN
          (mModemRawStringsList s ! MODEM_INDEX_MODEM_STATUS) \<and>
      SatStatusBeamColor (mModemInfo (updateModemInfo toDouble s)) =
        first_match beam_color_keywords SATELLITE_STATUS_BEAM_COLOR_UNKNOWN
          (mModemRawStringsList s ! MODEM_INDEX_SATELLITE_STATUS)) \<and>
   (TRIA_INDEX_SATELLITE_STATUS < length (mTriaRawStringsList s) \<longrightarrow>
      SatStatusBeamColor_Tria (mTriaInfo (updateTriaInfo toDouble s)) =
        first_match beam_color_keywords SATELLITE_STATUS_BEAM_COLOR_UNKNOWN
          (mTriaRawStringsList s ! TRIA_INDEX_SATELLITE_STATUS)) \<and>
   (MODEM_INDEX_SATELLITE_STATUS < length (mModemRawStringsList s) \<and>
    mModemRawStringsList s ! MODEM_INDEX_MODEM_STATUS = pre @ mid @ post \<and>
    map QChar_toCaseFolded mid = ''online'' \<and>
    \<not> QString_contains_ci (mModemRawStringsList s ! MODEM_INDEX_MODEM_STATUS) ''scanning'' \<and>
    \<not> QString_contains_ci (mModemRawStringsList s ! MODEM_INDEX_MODEM_STATUS) ''ranging'' \<and>
    \<not> QString_contains_ci (mModemRawStringsList s ! MODEM_INDEX_MODEM_STATUS) ''network'' \<and>
    \<not> QString_contains_ci (mModemRawStringsList s ! MODEM_INDEX_MODEM_STATUS) ''dhcp'' \<longrightarrow>
      ModemStatus (mModemInfo (updateModemInfo toDouble s)) = MODEM_STATE_ONLINE) \<and>
   ((\<forall>keyword\<in>set (map fst keywords). \<not> QString_contains_ci str keyword) \<longrightarrow>
      first_match keywords unknown str = unknown)"
proof -
  let ?status = "mModemRawStringsList s ! MODEM_INDEX_MODEM_STATUS"
  have fields: "MODEM_INDEX_SATELLITE_STATUS < length (mModemRawStringsList s) \<longrightarrow>
      ModemStatus (mModemInfo (updateModemInfo toDouble s)) =
        first_match modem_status_keywords MODEM_STATE_UNKNOWN ?status \<and>
      SatStatusBeamColor (mModemInfo (updateModemInfo toDouble s)) =
        first_match beam_color_keywords SATELLITE_STATUS_BEAM_COLOR_UNKNOWN
          (mModemRawStringsList s ! MODEM_INDEX_SATELLITE_STATUS)"
    by (simp add: ModemIndexes updateModemInfo_ModemStatus updateModemInfo_SatStatusBeamColor)
  have tria: "TRIA_INDEX_SATELLITE_STATUS < length (mTriaRawStringsList s) \<longrightarrow>
      SatStatusBeamColor_Tria (mTriaInfo (updateTriaInfo toDouble s)) =
        first_match beam_color_keywords SATELLITE_STATUS_BEAM_COLOR_UNKNOWN
          (mTriaRawStringsList s ! TRIA_INDEX_SATELLITE_STATUS)"
    by (simp add: TriaIndexes updateTriaInfo_SatStatusBeamColor_Tria)
  have online: "MODEM_INDEX_SATELLITE_STATUS < length (mModemRawStringsList s) \<and>
      ?status = pre @ mid @ post \<and>
      map QChar_toCaseFolded mid = ''online'' \<and>
      \<not> QString_contains_ci ?status ''scanning'' \<and>
      \<not> QString_contains_ci ?status ''ranging'' \<and>
      \<not> QString_contains_ci ?status ''network'' \<and>
      \<not> QString_contains_ci ?status ''dhcp'' \<longrightarrow>
      ModemStatus (mModemInfo (updateModemInfo toDouble s)) = MODEM_STATE_ONLINE"
  proof (intro impI, elim conjE)
    assume len: "MODEM_INDEX_SATELLITE_STATUS < length (mModemRawStringsList s)"
      and parts: "?status = pre @ mid @ post"
      and mid: "map QChar_toCaseFolded mid = ''online''"
      and others: "\<not> QString_contains_ci ?status ''scanning''"
        "\<not> QString_contains_ci ?status ''ranging''"
        "\<not> QString_contains_ci ?status ''network''"
        "\<not> QString_contains_ci ?status ''dhcp''"
    have "map QChar_toCaseFolded ''online'' = ''online''"
      by (simp add: QChar_toCaseFolded_def)
    with parts mid have "QString_contains_ci ?status ''online''"
      unfolding QString_contains_ci_iff by metis
    with others fields len show
      "ModemStatus (mModemInfo (updateModemInfo toDouble s)) = MODEM_STATE_ONLINE"
      by (simp add: first_match_modem_status)
  qed
  have none: "(\<forall>keyword\<in>set (map fst keywords). \<not> QString_contains_ci str keyword) \<longrightarrow>
      first_match keywords unknown str = unknown"
    by (simp add: first_match_none)
  from fields tria online none show ?thesis
    by (intro conjI)
qed

text \<open>
  Fields that spell their keyword in capitals or mixed case, and a status with no
  keyword.
\<close>

theorem categorical_fields_witness:
  "ModemStatus (mModemInfo (updateModemInfo no_double
      (holding ((replicate 81 [])[23 := ''Modem is ONLINE'', 24 := ''Beam: Green''])
         ((replicate 84 [])[29 := ''ORANGE beam''])))) = MODEM_STATE_ONLINE \<and>
   SatStatusBeamColor (mModemInfo (updateModemInfo no_double
      (holding ((replicate 81 [])[23 := ''Modem is ONLINE'', 24 := ''Beam: Green''])
         ((replicate 84 [])[29 := ''ORANGE beam''])))) = SATELLITE_STATUS_BEAM_COLOR_GREEN \<and>
   SatStatusBeamColor_Tria (mTriaInfo (updateTriaInfo no_double
      (holding ((replicate 81 [])[23 := ''Modem is ONLINE'', 24 := ''Beam: Green''])
         ((replicate 84 [])[29 := ''ORANGE beam''])))) = SATELLITE_STATUS_BEAM_COLOR_ORANGE \<and>
   first_match modem_status_keywords MODEM_STATE_UNKNOWN ''Rebooting'' = MODEM_STATE_UNKNOWN"
  using categorical_fields [of "holding ((replicate 81 [])[23 := ''Modem is ONLINE'',
        24 := ''Beam: Green'']) ((replicate 84 [])[29 := ''ORANGE beam''])" no_double
      "''Modem is ''" "''ONLINE''" "[]" modem_status_keywords "''Rebooting''" MODEM_STATE_UNKNOWN]
  by (simp add: ModemIndexes TriaIndexes qt_eval modem_status_keywords_def
      beam_color_keywords_def first_match_def)

text \<open>
  C7 as stated fails for its last part: the status \<open>scanning ONLINE\<close> contains
  \<open>ONLINE\<close> and is decoded as scanning, the earlier keyword.
\<close>

theorem categorical_fields_counterexample:
  "QString_contains_ci ''scanning ONLINE'' ''ONLINE'' \<and>
   ModemStatus (mModemInfo (updateModemInfo no_double
      (holding ((replicate 81 [])[23 := ''scanning ONLINE'']) []))) = MODEM_STATE_SCANNING \<and>
   ModemStatus (mModemInfo (updateModemInfo no_double
      (holding ((replicate 81 [])[23 := ''scanning ONLINE'']) []))) \<noteq> MODEM_STATE_ONLINE"
  by (simp add: updateModemInfo_ModemStatus first_match_modem_status qt_eval)

text \<open>
  C8, as amended. For each percentage field the decoder removes every \<open>%\<close> character,
  wherever it stands, converts the rest to an unsigned 16-bit integer (0 when it is no
  number or exceeds 65535), and stores that value modulo 256, the field being 8 bits
  wide; values up to 255 are stored as they are and nothing checks the range 0 to 100.
\<close>

theorem percent_fields:
  "(MODEM_INDEX_CABLE_ATTEN_PERCENT < length (mModemRawStringsList s) \<longrightarrow>
      unat (RxSnrPercent (mModemInfo (updateModemInfo toDouble s))) =
        unat (QString_toUShort (QString_remove CHR ''%''
          (mModemRawStringsList s ! MODEM_INDEX_RX_SNR_PERCENT))) mod 256 \<and>
      unat (RxPwrPercent (mModemInfo (updateModemInfo toDouble s))) =
        unat (QString_toUShort (QString_remove CHR ''%''
          (mModemRawStringsList s ! MODEM_INDEX_RX_PWR_PERCENT))) mod 256 \<and>
      unat (CableResistancePercent (mModemInfo (updateModemInfo toDouble s))) =
        unat (QString_toUShort (QString_remove CHR ''%''
          (mModemRawStringsList s ! MODEM_INDEX_CABLE_RESISTANCE_PERCENT))) mod 256 \<and>
      unat (CableAttenuationPercent (mModemInfo (updateModemInfo toDouble s))) =
        unat (QString_toUShort (QString_remove CHR ''%''
          (mModemRawStringsList s ! MODEM_INDEX_CABLE_ATTEN_PERCENT))) mod 256) \<and>
   (TRIA_INDEX_TX_RF_PWR_PERCENT < length (mTriaRawStringsList s) \<longrightarrow>
      unat (TxIfPwrPercent (mTriaInfo (updateTriaInfo toDouble s))) =
        unat (QString_toUShort (QString_remove CHR ''%''
          (mTriaRawStringsList s ! TRIA_INDEX_TX_IF_PWR_PERCENT))) mod 256 \<and>
      unat (TxRfPwrPercent (mTriaInfo (updateTriaInfo toDouble s))) =
        unat (QString_toUShort (QString_remove CHR ''%''
          (mTriaRawStringsList s ! TRIA_INDEX_TX_RF_PWR_PERCENT))) mod 256)"
  by (simp add: ModemIndexes TriaIndexes updateModemInfo_RxSnrPercent
      updateModemInfo_RxPwrPercent updateModemInfo_CableResistancePercent
      updateModemInfo_CableAttenuationPercent updateTriaInfo_TxIfPwrPercent
      updateTriaInfo_TxRfPwrPercent unat_percent unat_toUShort)

text \<open>Percentages within 8 bits, and a field that is no number.\<close>

theorem percent_fields_witness:
  "unat (RxSnrPercent (mModemInfo (updateModemInfo no_double
      (holding ((replicate 81 [])[12 := ''75%'', 15 := ''100%'', 17 := ''0%'', 20 := ''255%''])
         ((replicate 84 [])[25 := ''50%'', 26 := ''n/a'']))))) = 75 \<and>
   unat (RxPwrPercent (mModemInfo (updateModemInfo no_double
      (holding ((replicate 81 [])[12 := ''75%'', 15 := ''100%'', 17 := ''0%'', 20 := ''255%''])
         ((replicate 84 [])[25 := ''50%'', 26 := ''n/a'']))))) = 100 \<and>
   unat (CableResistancePercent (mModemInfo (updateModemInfo no_double
      (holding ((replicate 81 [])[12 := ''75%'', 15 := ''100%'', 17 := ''0%'', 20 := ''255%''])
         ((replicate 84 [])[25 := ''50%'', 26 := ''n/a'']))))) = 0 \<and>
   unat (CableAttenuationPercent (mModemInfo (updateModemInfo no_double
      (holding ((replicate 81 [])[12 := ''75%'', 15 := ''100%'', 17 := ''0%'', 20 := ''255%''])
         ((replicate 84 [])[25 := ''50%'', 26 := ''n/a'']))))) = 255 \<and>
   unat (TxIfPwrPercent (mTriaInfo (updateTriaInfo no_double
      (holding ((replicate 81 [])[12 := ''75%'', 15 := ''100%'', 17 := ''0%'', 20 := ''255%''])
         ((replicate 84 [])[25 := ''50%'', 26 := ''n/a'']))))) = 50 \<and>
   unat (TxRfPwrPercent (mTriaInfo (updateTriaInfo no_double
      (holding ((replicate 81 [])[12 := ''75%'', 15 := ''100%'', 17 := ''0%'', 20 := ''255%''])
         ((replicate 84 [])[25 := ''50%'', 26 := ''n/a'']))))) = 0"
  using percent_fields [of "holding ((replicate 81 [])[12 := ''75%'', 15 := ''100%'',
        17 := ''0%'', 20 := ''255%'']) ((replicate 84 [])[25 := ''50%'', 26 := ''n/a''])" no_double]
  by (simp add: ModemIndexes TriaIndexes qt_eval)

text \<open>
  C8 as stated fails twice: \<open>300%\<close> is parsed as 300 and stored as 44, and \<open>5%0\<close>,
  which has no trailing \<open>%\<close> and is no number with the inner one left in, is stored
  as 50.
\<close>

theorem percent_fields_counterexample:
  "unat (QString_toUShort (strip_trailing_percent ''300%'')) = 300 \<and>
   unat (RxSnrPercent (mModemInfo (updateModemInfo no_double
      (holding ((replicate 81 [])[12 := ''300%'', 15 := ''5%0'']) [])))) = 44 \<and>
   unat (QString_toUShort (strip_trailing_percent ''5%0'')) = 0 \<and>
   unat (RxPwrPercent (mModemInfo (updateModemInfo no_double
      (holding ((replicate 81 [])[12 := ''300%'', 15 := ''5%0'']) [])))) = 50"
  by (simp add: updateModemInfo_RxSnrPercent updateModemInfo_RxPwrPercent
      strip_trailing_percent_def qt_eval)

text \<open>
  C10. Decoding a modem response leaves the TRIA record as it is, and decoding a TRIA
  response leaves the modem record as it is.
\<close>

theorem decoders_frame:
  "mTriaInfo (updateModemInfo toDouble s) = mTriaInfo s \<and>
   mModemInfo (updateTriaInfo toDouble s) = mModemInfo s"
  by (simp add: updateModemInfo_frame updateTriaInfo_frame)

section \<open>Poll driver: field count and late responses\<close>

lemma split_more_fields:
  "QString_split FIELD_DELIMITER (modem_fields @ ''##more'') =
     ''192.168.100.1'' # replicate 80 [] @ [''more'']"
  by (simp add: QString_split_def FIELD_DELIMITER_def modem_fields_def replicate_numeral)

lemmas driver_eval =
  dispatch_def startCgiRequest_def QNetworkAccessManager_get_def arrive_def
  httpReadyReadModem_def httpReadyReadTria_def readAll_def reply_alive_def
  httpFinishedModem_def httpFinishedTria_def deleteLater_def Let_def
  FIELD_COUNT_MODEM_def FIELD_COUNT_TRIA_def
  split_modem_fields split_tria_fields split_three_fields split_more_fields
  updateModemInfo_frame updateTriaInfo_frame

text \<open>
  C1. When the bytes of a modem response do not split at \<open>##\<close> into exactly 81 fields
  (84 fields for a TRIA response), the finished slot decodes nothing and returns with
  both records as they were; the program has no error value, and the record left alone
  is how the mismatch shows. A slot that did replace its record had a response of
  exactly 81 (84) fields.
\<close>

theorem field_count_guard:
  "(reply_alive s (mReplyModem s) \<and>
    length (QString_split FIELD_DELIMITER (mByteArrayModem s)) \<noteq> 81 \<longrightarrow>
      (\<exists>s'. httpFinishedModem toDouble s = Inr s' \<and>
            mModemInfo s' = mModemInfo s \<and> mTriaInfo s' = mTriaInfo s)) \<and>
   (reply_alive s (mReplyTria s) \<and>
    length (QString_split FIELD_DELIMITER (mByteArrayTria s)) \<noteq> 84 \<longrightarrow>
      (\<exists>s'. httpFinishedTria toDouble s = Inr s' \<and>
            mModemInfo s' = mModemInfo s \<and> mTriaInfo s' = mTriaInfo s)) \<and>
   (httpFinishedModem toDouble s = Inr m \<and> mModemInfo m \<noteq> mModemInfo s \<longrightarrow>
      length (QString_split FIELD_DELIMITER (mByteArrayModem s)) = 81) \<and>
   (httpFinishedTria toDouble s = Inr t \<and> mTriaInfo t \<noteq> mTriaInfo s \<longrightarrow>
      length (QString_split FIELD_DELIMITER (mByteArrayTria s)) = 84)"
  by (auto simp: httpFinishedModem_def httpFinishedTria_def Let_def FIELD_COUNT_MODEM_def
      FIELD_COUNT_TRIA_def reply_alive_def updateModemInfo_frame updateTriaInfo_frame
      split: if_splits)

text \<open>
  A response of three fields leaves both records blank; responses of 81 and 84 fields
  replace them.
\<close>

theorem field_count_guard_witness:
  "(\<exists>s'. httpFinishedModem no_double
            (fresh\<lparr>mByteArrayModem := three_fields, mByteArrayTria := three_fields\<rparr>) = Inr s' \<and>
         mModemInfo s' = blank_ModemInfo \<and> mTriaInfo s' = blank_TriaInfo) \<and>
   (\<exists>s'. httpFinishedTria no_double
            (fresh\<lparr>mByteArrayModem := three_fields, mByteArrayTria := three_fields\<rparr>) = Inr s' \<and>
         mModemInfo s' = blank_ModemInfo \<and> mTriaInfo s' = blank_TriaInfo) \<and>
   IpAddress_of (httpFinishedModem no_double
      (fresh\<lparr>mByteArrayModem := modem_fields, mByteArrayTria := tria_fields\<rparr>)) =
     Inr ''192.168.100.1'' \<and>
   length (QString_split FIELD_DELIMITER modem_fields) = 81 \<and>
   length (QString_split FIELD_DELIMITER tria_fields) = 84"
proof -
  let ?short = "fresh\<lparr>mByteArrayModem := three_fields, mByteArrayTria := three_fields\<rparr>"
  let ?full = "fresh\<lparr>mByteArrayModem := modem_fields, mByteArrayTria := tria_fields\<rparr>"
  have alive: "reply_alive ?short (mReplyModem ?short)" "reply_alive ?short (mReplyTria ?short)"
    by (simp_all add: fresh_eq reply_alive_def)
  have short: "length (QString_split FIELD_DELIMITER (mByteArrayModem ?short)) \<noteq> 81"
    "length (QString_split FIELD_DELIMITER (mByteArrayTria ?short)) \<noteq> 84"
    by (simp_all add: split_three_fields)
  have modem: "httpFinishedModem no_double ?full = Inr (projr (httpFinishedModem no_double ?full))"
    by (simp add: fresh_eq driver_eval)
  have tria: "httpFinishedTria no_double ?full = Inr (projr (httpFinishedTria no_double ?full))"
    by (simp add: fresh_eq driver_eval)
  have ip: "IpAddress_of (httpFinishedModem no_double ?full) = Inr ''192.168.100.1''"
    by (simp add: IpAddress_of_def fresh_eq driver_eval updateModemInfo_IpAddress)
  have "IpAddress (mModemInfo (projr (httpFinishedModem no_double ?full))) = ''192.168.100.1''"
    by (simp add: fresh_eq driver_eval updateModemInfo_IpAddress)
  then have modem_new: "mModemInfo (projr (httpFinishedModem no_double ?full)) \<noteq> mModemInfo ?full"
    by (auto simp: fresh_eq blank_ModemInfo_def)
  have "Vendor_Tria (mTriaInfo (projr (httpFinishedTria no_double ?full))) = ''ViaSat''"
    by (simp add: fresh_eq driver_eval updateTriaInfo_Vendor_Tria nth_append)
  then have tria_new: "mTriaInfo (projr (httpFinishedTria no_double ?full)) \<noteq> mTriaInfo ?full"
    by (auto simp: fresh_eq blank_TriaInfo_def)
  from field_count_guard [of ?short no_double] alive short
  have "(\<exists>s'. httpFinishedModem no_double ?short = Inr s' \<and>
            mModemInfo s' = mModemInfo ?short \<and> mTriaInfo s' = mTriaInfo ?short) \<and>
        (\<exists>s'. httpFinishedTria no_double ?short = Inr s' \<and>
            mModemInfo s' = mModemInfo ?short \<and> mTriaInfo s' = mTriaInfo ?short)"
    by blast
  moreover have "mModemInfo ?short = blank_ModemInfo" "mTriaInfo ?short = blank_TriaInfo"
    by (simp_all add: fresh_eq)
  moreover
  from field_count_guard [of ?full no_double "projr (httpFinishedModem no_double ?full)"
      "projr (httpFinishedTria no_double ?full)"] modem tria modem_new tria_new
  have "length (QString_split FIELD_DELIMITER (mByteArrayModem ?full)) = 81 \<and>
        length (QString_split FIELD_DELIMITER (mByteArrayTria ?full)) = 84"
    by blast
  then have "length (QString_split FIELD_DELIMITER modem_fields) = 81 \<and>
        length (QString_split FIELD_DELIMITER tria_fields) = 84"
    by simp
  ultimately show ?thesis
    using ip by simp
qed

text \<open>
  C9. A response that arrives only after a later poll cycle has begun ought to be
  discarded and leave the record of the newer cycle alone. The slots do not tell a
  superseded reply from the tracked one: they read, decode for and delete the tracked
  reply whichever reply sent the signal. Two runs after the second cycle has begun
  (replies 0 and 1 superseded, replies 2 and 3 tracked) show it.
  \<^item> Reply 2 finishes and is deleted; then bytes arrive for reply 0, or reply 0
    finishes: the slot goes through the pointer to the deleted reply 2.
  \<^item> Reply 2 has received 81 fields of a response of 82 fields when reply 0 finishes:
    the late signal replaces the blank record by those 81 fields and deletes reply 2,
    so that the rest of the response is lost. Without the late signal the response is
    rejected for its field count and the record stays blank.
\<close>

theorem late_response_not_discarded:
  "run no_double [TimerTimeout, ReplyFinished 2, BytesArrive 0 ''1''] fresh =
     Inl UseAfterFree \<and>
   run no_double [TimerTimeout, ReplyFinished 2, ReplyFinished 0] fresh =
     Inl UseAfterFree \<and>
   tracked_modem_reply (run no_double [TimerTimeout, BytesArrive 2 modem_fields] fresh) = Inr 2 \<and>
   IpAddress_of (run no_double [TimerTimeout, BytesArrive 2 modem_fields] fresh) = Inr [] \<and>
   IpAddress_of (run no_double [TimerTimeout, BytesArrive 2 modem_fields, ReplyFinished 0] fresh) =
     Inr ''192.168.100.1'' \<and>
   reply_deleted 2
     (run no_double [TimerTimeout, BytesArrive 2 modem_fields, ReplyFinished 0] fresh) =
     Inr True \<and>
   IpAddress_of (run no_double [TimerTimeout, BytesArrive 2 modem_fields,
       BytesArrive 2 ''##more'', ReplyFinished 2] fresh) = Inr [] \<and>
   IpAddress_of (run no_double [TimerTimeout, BytesArrive 2 modem_fields, ReplyFinished 0,
       BytesArrive 2 ''##more'', ReplyFinished 2] fresh) = Inr ''192.168.100.1''"
  by (simp add: tracked_modem_reply_def IpAddress_of_def reply_deleted_def fresh_eq driver_eval
      updateModemInfo_IpAddress blank_ModemInfo_def)

end
